theory Spec2Isabelle
  imports Complex_Main
begin

section \<open>The loan pipeline: shared data\<close>

text \<open>
  The repository routes a loan through three programs that share a MySQL table and talk
  through two SQS queues and one SNS topic:
  \<^item> the loan service (\<^verbatim>\<open>loan-service\<close>, route \<^verbatim>\<open>POST /loans\<close>) inserts the loan and
    sends a \<^verbatim>\<open>VERIFY_DOCUMENTS\<close> message;
  \<^item> the document verification service (\<^verbatim>\<open>processMessage\<close>, \<^verbatim>\<open>pollMessages\<close>) consumes that
    message, writes the status and sends a \<^verbatim>\<open>CHECK_ELIGIBILITY\<close> message;
  \<^item> the eligibility Lambda (\<^verbatim>\<open>calculateEligibility\<close>, \<^verbatim>\<open>handler\<close>) consumes that message,
    writes the status and publishes an approval notification.

  What the outside world decides (the value of \<^verbatim>\<open>Math.random()\<close>, whether a database, queue
  or topic call rejects, the clock) is an explicit argument of each function. State (the
  tables, the queues, the topic, the log) is passed in and returned. Every \<^verbatim>\<open>throw\<close> of the
  source is a branch that ends in the \<^verbatim>\<open>catch\<close> block the exception would reach.

  JavaScript numbers are read as the real numbers they denote: a draw of \<^verbatim>\<open>Math.random()\<close>
  is a real (the source's are doubles in the interval from 0 to 1, 1 excluded) and an amount
  is a real. A literal of the source is the double it denotes: \<^verbatim>\<open>1000000\<close> is that number,
  \<^verbatim>\<open>0.7\<close> is the double \<open>double_0_7\<close> below 7/10, and \<^verbatim>\<open>0.9\<close> is a double just above
  9/10 with no double between the two, so that a draw is below the one exactly when it is
  below the other and the comparison is written with 9/10. Ids are integers. One run of a
  polling loop or of a handler is modelled, not the scheduling of the next one.
\<close>

datatype loan_status =
  PENDING_VERIFICATION | VERIFIED | VERIFICATION_FAILED | PENDING_ELIGIBILITY | APPROVED | REJECTED

text \<open>
  A row of the \<^verbatim>\<open>loans\<close> table, without its timestamps (no code of the pipeline reads
  them). \<^verbatim>\<open>loanAmount\<close> is \<open>None\<close> for SQL NULL. The primary key \<^verbatim>\<open>id\<close> is the key of
  the table.
\<close>

record loan =
  loan_userId :: int
  loanAmount :: "real option"
  propertyAddress :: string
  status :: loan_status

type_synonym loans_table = "int \<rightharpoonup> loan"

text \<open>\<^verbatim>\<open>UPDATE loans SET status = ? WHERE id = ?\<close>: the row with that id, if there is one,
  gets the status; no other condition is part of the statement.\<close>

definition update_status :: "loans_table \<Rightarrow> loan_status \<Rightarrow> int \<Rightarrow> loans_table" where
  "update_status tbl newStatus k =
     (case tbl k of
        None \<Rightarrow> tbl
      | Some row \<Rightarrow> tbl(k \<mapsto> row\<lparr>status := newStatus\<rparr>))"

text \<open>
  The message envelope \<^verbatim>\<open>{loanId, userId, action, timestamp}\<close> as the destructuring
  \<^verbatim>\<open>const { loanId, userId, action } = body\<close> sees it: a field that the JSON object does not
  have is \<open>None\<close> (\<^verbatim>\<open>undefined\<close>).
\<close>

record envelope =
  loanId :: "int option"
  userId :: "int option"
  action :: "string option"
  timestamp :: "string option"

text \<open>A log line: its level, its text as the source writes it (template placeholders kept),
  and the values the line is given.\<close>

datatype level = Info | Warn | Error | Debug

datatype log_arg =
  AInt "int option" | AStr string | AStatus loan_status | ABody envelope | ANat nat | AReal real

type_synonym log_entry = "level \<times> string \<times> log_arg list"

section \<open>common/db.js\<close>

text \<open>The \<^verbatim>\<open>Database\<close> singleton: \<^verbatim>\<open>pool\<close> is set by \<^verbatim>\<open>initialize\<close>; the tables are those
  of the MySQL server behind it, with the AUTO_INCREMENT counter of \<^verbatim>\<open>loans\<close>.\<close>

record database =
  pool :: bool
  users :: "int set"
  loans :: loans_table
  auto_increment :: int

text \<open>\<^verbatim>\<open>query\<close> throws when the pool is missing; otherwise \<^verbatim>\<open>connection.execute\<close> rejects
  when the server or the driver does (the argument \<open>err\<close>, decided outside the program).\<close>

definition query_error :: "database \<Rightarrow> string option \<Rightarrow> string option" where
  "query_error d err =
     (if \<not> pool d then Some ''Database not initialized. Call initialize() first.'' else err)"

section \<open>doc-verification-service/src/index.js\<close>

record message =
  ReceiptHandle :: string
  Body :: "string + envelope"

text \<open>
  \<^verbatim>\<open>Body\<close> holds what \<^verbatim>\<open>JSON.parse(message.Body)\<close> and the destructuring give: \<open>Inl msg\<close>
  when they throw, \<open>Inr body\<close> otherwise.

  What a call of \<^verbatim>\<open>processMessage\<close> and the deletion after it meet outside the program:
\<close>

record venv =
  random :: real
  db_error :: "string option"
  send_error :: "string option"
  delete_error :: "string option"
  now :: string

record vstate =
  db :: database
  doc_verification_queue :: "message list"
  eligibility_queue :: "envelope list"
  logger :: "log_entry list"

definition log_v :: "log_entry \<Rightarrow> vstate \<Rightarrow> vstate" where
  "log_v l s = s\<lparr>logger := logger s @ [l]\<rparr>"

definition verifyDocuments :: "venv \<Rightarrow> vstate \<Rightarrow> int option \<Rightarrow> bool \<times> vstate" where
  "verifyDocuments e s lid =
     (let s1 = log_v (Info, ''Verifying documents for loan ${loanId}'', [AInt lid]) s;
          isVerified = (random e < 0.9);
          s2 = log_v (Info, ''Document verification result for loan ${loanId}: ${isVerified ? 'PASSED' : 'FAILED'}'',
                      [AInt lid, AStr (if isVerified then ''PASSED'' else ''FAILED'')]) s1
      in (isVerified, s2))"

text \<open>\<^verbatim>\<open>db.query('UPDATE loans SET status = ? WHERE id = ?', [newStatus, loanId])\<close>. The
  driver refuses an \<^verbatim>\<open>undefined\<close> bind parameter, so a message without \<^verbatim>\<open>loanId\<close> makes the
  call reject.\<close>

definition db_update_status :: "database \<Rightarrow> string option \<Rightarrow> loan_status \<Rightarrow> int option \<Rightarrow> string + database" where
  "db_update_status d err newStatus lid =
     (case query_error d err of
        Some msg \<Rightarrow> Inl msg
      | None \<Rightarrow>
          (case lid of
             None \<Rightarrow> Inl ''Bind parameters must not contain undefined. To pass SQL NULL specify JS null''
           | Some k \<Rightarrow> Inr (d\<lparr>loans := update_status (loans d) newStatus k\<rparr>)))"

record result =
  result_id :: string
  success :: bool

definition processing_failed :: "message \<Rightarrow> string \<Rightarrow> vstate \<Rightarrow> result \<times> vstate" where
  "processing_failed m msg s =
     (\<lparr>result_id = ReceiptHandle m, success = False\<rparr>,
      log_v (Error, ''Error processing message:'', [AStr msg]) s)"

definition processMessage :: "venv \<Rightarrow> vstate \<Rightarrow> message \<Rightarrow> result \<times> vstate" where
  "processMessage e s m =
     (case Body m of
        Inl msg \<Rightarrow> processing_failed m msg s
      | Inr body \<Rightarrow>
          (let s1 = log_v (Info, ''Processing message:'', [ABody body]) s in
           if action body = Some ''VERIFY_DOCUMENTS'' then
             (case verifyDocuments e s1 (loanId body) of
                (isVerified, s2) \<Rightarrow>
                  (let newStatus = (if isVerified then VERIFIED else VERIFICATION_FAILED) in
                   case db_update_status (db s2) (db_error e) newStatus (loanId body) of
                     Inl msg \<Rightarrow> processing_failed m msg s2
                   | Inr d \<Rightarrow>
                       (let s3 = log_v (Info, ''Loan ${loanId} status updated to ${newStatus}'',
                                        [AInt (loanId body), AStatus newStatus]) (s2\<lparr>db := d\<rparr>) in
                        if isVerified then
                          (case send_error e of
                             Some msg \<Rightarrow>
                               processing_failed m msg
                                 (log_v (Error, ''Failed to send eligibility message for loan ${loanId}:'',
                                         [AInt (loanId body), AStr msg]) s3)
                           | None \<Rightarrow>
                               (\<lparr>result_id = ReceiptHandle m, success = True\<rparr>,
                                log_v (Info, ''Document verified for loan ${loanId}, sent to eligibility queue'',
                                       [AInt (loanId body)])
                                  (s3\<lparr>eligibility_queue := eligibility_queue s3 @
                                        [\<lparr>loanId = loanId body, userId = userId body,
                                          action = Some ''CHECK_ELIGIBILITY'',
                                          timestamp = Some (now e)\<rparr>]\<rparr>)))
                        else
                          (\<lparr>result_id = ReceiptHandle m, success = True\<rparr>,
                           log_v (Warn, ''Document verification failed for loan ${loanId}'',
                                  [AInt (loanId body)]) s3))))
           else
             (\<lparr>result_id = ReceiptHandle m, success = False\<rparr>,
              log_v (Warn, ''Unknown action: ${action}'',
                     [AStr (case action body of None \<Rightarrow> ''undefined'' | Some a \<Rightarrow> a)]) s1)))"

text \<open>\<^verbatim>\<open>sqs.deleteMessage\<close>: the message with that receipt handle leaves the queue.\<close>

definition deleteMessage :: "string \<Rightarrow> message list \<Rightarrow> message list" where
  "deleteMessage h q = filter (\<lambda>m. ReceiptHandle m \<noteq> h) q"

text \<open>The body of the loop \<^verbatim>\<open>for (const message of data.Messages)\<close> in \<^verbatim>\<open>pollMessages\<close>:
  the message is deleted only when \<^verbatim>\<open>result.success\<close> holds; otherwise it stays in the
  queue, where the broker hands it out again after the visibility timeout.\<close>

definition handle_message :: "venv \<Rightarrow> vstate \<Rightarrow> message \<Rightarrow> vstate" where
  "handle_message e s m =
     (case processMessage e s m of
        (res, s1) \<Rightarrow>
          if success res then
            (case delete_error e of
               None \<Rightarrow>
                 log_v (Info, ''Message deleted from queue'', [])
                   (s1\<lparr>doc_verification_queue := deleteMessage (result_id res) (doc_verification_queue s1)\<rparr>)
             | Some msg \<Rightarrow> log_v (Error, ''Error deleting message from queue:'', [AStr msg]) s1)
          else s1)"

fun for_messages :: "(nat \<Rightarrow> venv) \<Rightarrow> nat \<Rightarrow> vstate \<Rightarrow> message list \<Rightarrow> vstate" where
  "for_messages es i s [] = s"
| "for_messages es i s (m # ms) = for_messages es (Suc i) (handle_message (es i) s m) ms"

text \<open>One run of \<^verbatim>\<open>pollMessages\<close>: the batch is at most 10 messages of the queue; the result
  is the state and the delay in milliseconds after which \<^verbatim>\<open>setTimeout\<close> runs it again.\<close>

definition pollMessages :: "string option \<Rightarrow> (nat \<Rightarrow> venv) \<Rightarrow> vstate \<Rightarrow> vstate \<times> nat" where
  "pollMessages receive_error es s =
     (case receive_error of
        Some msg \<Rightarrow> (log_v (Error, ''SQS consumer error:'', [AStr msg]) s, 5000)
      | None \<Rightarrow>
          (let Messages = take 10 (doc_verification_queue s) in
           if length Messages > 0 then
             (for_messages es 0
                (log_v (Info, ''Received ${data.Messages.length} messages from queue'',
                        [ANat (length Messages)]) s) Messages, 1000)
           else (log_v (Debug, ''No messages received from queue'', []) s, 1000)))"

section \<open>eligibility-lambda/index.js\<close>

record eligibility =
  eligible :: bool
  reason :: string

text \<open>The number that the literal \<^verbatim>\<open>0.7\<close> denotes: the double nearest to 7/10, which is
  3152519739159347 / 2^52 and lies below 7/10. It is itself a possible draw.\<close>

definition double_0_7 :: real where
  "double_0_7 = 3152519739159347 / 4503599627370496"

text \<open>\<^verbatim>\<open>calculateEligibility\<close>, with the value of \<^verbatim>\<open>Math.random()\<close> as \<open>rnd\<close>.
  \<^verbatim>\<open>!loanAmount\<close> holds for a missing amount and for 0.\<close>

definition calculateEligibility :: "real \<Rightarrow> real option \<Rightarrow> string + eligibility" where
  "calculateEligibility rnd amount =
     (case amount of
        None \<Rightarrow> Inl ''Invalid loan amount''
      | Some a \<Rightarrow>
          if a = 0 \<or> a \<le> 0 then Inl ''Invalid loan amount''
          else
            (let isEligible = (rnd < double_0_7 \<and> a < 1000000);
                 r = (if isEligible then ''Approved based on eligibility rules''
                      else if a \<ge> 1000000 then ''Loan amount exceeds maximum threshold''
                      else ''Does not meet eligibility criteria'')
             in Inr \<lparr>eligible = isEligible, reason = r\<rparr>))"

record sqs_record =
  messageId :: string
  body :: "string + envelope"

text \<open>The JSON message of the notification and the parameters of \<^verbatim>\<open>sns.publish\<close>.\<close>

record notification =
  n_loanId :: "int option"
  n_userId :: "int option"
  n_status :: loan_status
  n_reason :: string
  n_timestamp :: string

record sns_params =
  TopicArn :: string
  Subject :: "string \<times> int option"
  Message :: notification

record processed_record =
  p_recordId :: string
  p_loanId :: "int option"
  p_status :: loan_status

record failed_record =
  f_recordId :: string
  f_reason :: string

text \<open>What the processing of one record meets outside the program:\<close>

record lenv =
  l_random :: real
  select_error :: "string option"
  update_error :: "string option"
  publish_error :: "string option"
  l_now :: string

text \<open>
  The state of the handler's loop: the \<^verbatim>\<open>loans\<close> table behind \<^verbatim>\<open>connection\<close>, the calls
  of \<^verbatim>\<open>sns.publish\<close> made so far (\<open>sns_calls\<close>, whether they succeeded or not), the messages
  the topic accepted (\<open>sns_topic\<close>), the log, and the two local arrays.
\<close>

record lstate =
  l_loans :: loans_table
  sns_calls :: "sns_params list"
  sns_topic :: "sns_params list"
  l_log :: "log_entry list"
  processedRecords :: "processed_record list"
  failedRecords :: "failed_record list"

definition log_l :: "log_entry \<Rightarrow> lstate \<Rightarrow> lstate" where
  "log_l l s = s\<lparr>l_log := l_log s @ [l]\<rparr>"

text \<open>The \<^verbatim>\<open>catch (error)\<close> of the loop body.\<close>

definition record_failed :: "sqs_record \<Rightarrow> string \<Rightarrow> lstate \<Rightarrow> lstate" where
  "record_failed r msg s =
     (let s1 = log_l (Error, ''Error processing record'', [AStr msg]) s
      in s1\<lparr>failedRecords := failedRecords s1 @ [\<lparr>f_recordId = messageId r, f_reason = msg\<rparr>]\<rparr>)"

text \<open>JavaScript truthiness of a string that may be missing: \<^verbatim>\<open>undefined\<close> and the empty
  string are falsy.\<close>

definition truthy_str :: "string option \<Rightarrow> bool" where
  "truthy_str v = (case v of None \<Rightarrow> False | Some x \<Rightarrow> x \<noteq> [])"

text \<open>The \<^verbatim>\<open>if (eligibilityResult.eligible && process.env.LOAN_APPROVED_TOPIC_ARN)\<close> block,
  with its own \<^verbatim>\<open>try\<close>/\<^verbatim>\<open>catch\<close>: a rejected publish is logged and goes no further.\<close>

definition publish_approval ::
  "lenv \<Rightarrow> string option \<Rightarrow> envelope \<Rightarrow> eligibility \<Rightarrow> lstate \<Rightarrow> lstate" where
  "publish_approval e topic b res s =
     (if eligible res \<and> truthy_str topic then
        (let snsParams = \<lparr>TopicArn = (case topic of Some t \<Rightarrow> t | None \<Rightarrow> []),
                          Subject = (''Loan ${loanId} Approved'', loanId b),
                          Message = \<lparr>n_loanId = loanId b, n_userId = userId b,
                                     n_status = APPROVED, n_reason = reason res,
                                     n_timestamp = l_now e\<rparr>\<rparr>;
             s1 = s\<lparr>sns_calls := sns_calls s @ [snsParams]\<rparr>
         in case publish_error e of
              None \<Rightarrow>
                log_l (Info, ''Published approval notification for loan ${loanId}'', [AInt (loanId b)])
                  (s1\<lparr>sns_topic := sns_topic s1 @ [snsParams]\<rparr>)
            | Some msg \<Rightarrow>
                log_l (Error, ''Failed to publish SNS notification for loan ${loanId}'',
                       [AInt (loanId b), AStr msg]) s1)
      else s)"

text \<open>The body of the loop \<^verbatim>\<open>for (const record of event.Records)\<close>. The test
  \<^verbatim>\<open>!loanId\<close> holds for a missing id and for 0.\<close>

definition process_record :: "lenv \<Rightarrow> string option \<Rightarrow> lstate \<Rightarrow> sqs_record \<Rightarrow> lstate" where
  "process_record e topic s r =
     (case body r of
        Inl msg \<Rightarrow> record_failed r msg s
      | Inr b \<Rightarrow>
          (let s1 = log_l (Info, ''Processing message'', [AInt (loanId b),
                            AStr (case action b of None \<Rightarrow> ''undefined'' | Some a \<Rightarrow> a)]) s in
           case loanId b of
             None \<Rightarrow> record_failed r ''Missing required fields: loanId, action'' s1
           | Some k \<Rightarrow>
               if k = 0 \<or> \<not> truthy_str (action b) then
                 record_failed r ''Missing required fields: loanId, action'' s1
               else if action b = Some ''CHECK_ELIGIBILITY'' then
                 (case select_error e of
                    Some msg \<Rightarrow> record_failed r msg s1
                  | None \<Rightarrow>
                      (case l_loans s1 k of
                         None \<Rightarrow>
                           (let s2 = log_l (Warn, ''Loan ${loanId} not found in database'', [AInt (loanId b)]) s1
                            in s2\<lparr>failedRecords := failedRecords s2 @
                                     [\<lparr>f_recordId = messageId r, f_reason = ''Loan not found''\<rparr>]\<rparr>)
                       | Some loan \<Rightarrow>
                           (case calculateEligibility (l_random e) (loanAmount loan) of
                              Inl msg \<Rightarrow> record_failed r msg s1
                            | Inr eligibilityResult \<Rightarrow>
                                (let newStatus = (if eligible eligibilityResult then APPROVED else REJECTED) in
                                 case update_error e of
                                   Some msg \<Rightarrow> record_failed r msg s1
                                 | None \<Rightarrow>
                                     (let s2 = s1\<lparr>l_loans := update_status (l_loans s1) newStatus k\<rparr>;
                                          s3 = log_l (Info, ''Loan ${loanId} status updated to ${newStatus}'',
                                                      [AInt (loanId b), AStatus newStatus,
                                                       AStr (reason eligibilityResult)]) s2;
                                          s4 = publish_approval e topic b eligibilityResult s3
                                      in s4\<lparr>processedRecords := processedRecords s4 @
                                              [\<lparr>p_recordId = messageId r, p_loanId = loanId b,
                                                p_status = newStatus\<rparr>]\<rparr>)))))
               else
                 (let a = (case action b of None \<Rightarrow> ''undefined'' | Some a \<Rightarrow> a);
                      s2 = log_l (Warn, ''Unknown action: ${action}'', [AStr a]) s1
                  in s2\<lparr>failedRecords := failedRecords s2 @
                           [\<lparr>f_recordId = messageId r, f_reason = ''Unknown action: '' @ a\<rparr>]\<rparr>)))"

fun for_records :: "(nat \<Rightarrow> lenv) \<Rightarrow> string option \<Rightarrow> nat \<Rightarrow> lstate \<Rightarrow> sqs_record list \<Rightarrow> lstate" where
  "for_records es topic i s [] = s"
| "for_records es topic i s (r # rs) =
     for_records es topic (Suc i) (process_record (es i) topic s r) rs"

text \<open>The value the handler returns: the status code and the object that is serialised
  into \<^verbatim>\<open>body\<close>.\<close>

datatype response_body =
  Completed (summary: string) (processed: nat) (failed: nat)
    (details_processed: "processed_record list") (details_failed: "failed_record list")
| ExecutionError (summary: string) (error_message: string)

record response =
  statusCode :: nat
  response_body :: response_body

text \<open>What is outside the Lambda and survives an invocation.\<close>

record lambda_world =
  w_loans :: loans_table
  w_sns_calls :: "sns_params list"
  w_sns_topic :: "sns_params list"
  w_log :: "log_entry list"

record henv =
  connect_error :: "string option"
  end_error :: "string option"
  topic_arn :: "string option"
  per_record :: "nat \<Rightarrow> lenv"

definition log_w :: "log_entry \<Rightarrow> lambda_world \<Rightarrow> lambda_world" where
  "log_w l w = w\<lparr>w_log := w_log w @ [l]\<rparr>"

text \<open>The \<^verbatim>\<open>finally\<close> block: runs when \<^verbatim>\<open>connection\<close> was set.\<close>

definition close_connection :: "henv \<Rightarrow> lambda_world \<Rightarrow> lambda_world" where
  "close_connection h w =
     (case end_error h of
        None \<Rightarrow> log_w (Info, ''Database connection closed'', []) w
      | Some msg \<Rightarrow> log_w (Error, ''Error closing database connection'', [AStr msg]) w)"

text \<open>\<^verbatim>\<open>exports.handler\<close>. \<open>Records\<close> is \<open>None\<close> when the event has no \<^verbatim>\<open>Records\<close>
  (the \<^verbatim>\<open>for ... of\<close> then throws into the outer \<^verbatim>\<open>catch\<close>).\<close>

definition handler :: "henv \<Rightarrow> lambda_world \<Rightarrow> sqs_record list option \<Rightarrow> response \<times> lambda_world" where
  "handler h w Records =
     (let w1 = log_w (Info, ''Eligibility Lambda triggered with event'',
                      (case Records of None \<Rightarrow> [] | Some rs \<Rightarrow> [ANat (length rs)])) w in
      case connect_error h of
        Some msg \<Rightarrow>
          (\<lparr>statusCode = 500, response_body = ExecutionError ''Lambda execution error'' msg\<rparr>,
           log_w (Error, ''Lambda execution error'', [AStr msg])
             (log_w (Error, ''Failed to establish database connection'', [AStr msg]) w1))
      | None \<Rightarrow>
          (let w2 = log_w (Info, ''Database connection established'', []) w1 in
           case Records of
             None \<Rightarrow>
               (\<lparr>statusCode = 500,
                 response_body = ExecutionError ''Lambda execution error'' ''event.Records is not iterable''\<rparr>,
                close_connection h
                  (log_w (Error, ''Lambda execution error'', [AStr ''event.Records is not iterable'']) w2))
           | Some rs \<Rightarrow>
               (let s = for_records (per_record h) (topic_arn h) 0
                          \<lparr>l_loans = w_loans w2, sns_calls = w_sns_calls w2,
                           sns_topic = w_sns_topic w2, l_log = w_log w2,
                           processedRecords = [], failedRecords = []\<rparr> rs
                in (\<lparr>statusCode = 200,
                     response_body = Completed ''Eligibility check completed''
                       (length (processedRecords s)) (length (failedRecords s))
                       (processedRecords s) (failedRecords s)\<rparr>,
                    close_connection h
                      \<lparr>w_loans = l_loans s, w_sns_calls = sns_calls s,
                       w_sns_topic = sns_topic s, w_log = l_log s\<rparr>))))"

section \<open>loan-service: POST /loans\<close>

record validatedBody =
  vb_userId :: int
  vb_loanAmount :: real
  vb_propertyAddress :: string

record penv =
  users_query_error :: "string option"
  insert_error :: "string option"
  p_send_error :: "string option"
  p_now :: string

record pstate =
  p_db :: database
  p_doc_verification_queue :: "envelope list"
  p_logger :: "log_entry list"

definition log_p :: "log_entry \<Rightarrow> pstate \<Rightarrow> pstate" where
  "log_p l s = s\<lparr>p_logger := p_logger s @ [l]\<rparr>"

datatype http_json =
  LoanCreated string int loan_status
| ErrorJson string

record http_response =
  http_status :: nat
  http_json :: http_json

text \<open>\<^verbatim>\<open>next(error)\<close> reaches \<^verbatim>\<open>errorHandler\<close>; the errors of the database layer carry no
  \<^verbatim>\<open>status\<close>, so the answer is 500.\<close>

definition errorHandler :: "string \<Rightarrow> pstate \<Rightarrow> http_response \<times> pstate" where
  "errorHandler msg s =
     (\<lparr>http_status = 500,
       http_json = ErrorJson (if msg = [] then ''Internal server error'' else msg)\<rparr>,
      log_p (Error, ''Error:'', [AStr msg]) s)"

text \<open>\<^verbatim>\<open>sendSQSMessage\<close>: logs and rethrows when \<^verbatim>\<open>sqs.sendMessage\<close> rejects.\<close>

definition sendSQSMessage :: "string option \<Rightarrow> envelope \<Rightarrow> pstate \<Rightarrow> string option \<times> pstate" where
  "sendSQSMessage err messageBody s =
     (case err of
        None \<Rightarrow>
          (None, log_p (Info, ''SQS message sent:'', [ABody messageBody])
                   (s\<lparr>p_doc_verification_queue := p_doc_verification_queue s @ [messageBody]\<rparr>))
      | Some msg \<Rightarrow> (Some msg, log_p (Error, ''Error sending SQS message:'', [AStr msg]) s))"

text \<open>\<^verbatim>\<open>INSERT INTO loans (...) VALUES (?, ?, ?, ?, NOW())\<close>: the new row takes the next
  AUTO_INCREMENT value, which is \<^verbatim>\<open>result.insertId\<close>.\<close>

definition insert_loan :: "database \<Rightarrow> loan \<Rightarrow> int \<times> database" where
  "insert_loan d row =
     (auto_increment d,
      d\<lparr>loans := (loans d)(auto_increment d \<mapsto> row), auto_increment := auto_increment d + 1\<rparr>)"

text \<open>The handler of \<^verbatim>\<open>app.post('/loans', validateRequest(createLoanSchema), ...)\<close>, entered
  with \<^verbatim>\<open>req.validatedBody\<close>.\<close>

definition post_loans :: "penv \<Rightarrow> pstate \<Rightarrow> validatedBody \<Rightarrow> http_response \<times> pstate" where
  "post_loans e s vb =
     (let s1 = log_p (Info, ''Creating loan for user: ${userId}, amount: ${loanAmount}'',
                      [AInt (Some (vb_userId vb)), AReal (vb_loanAmount vb)]) s in
      case query_error (p_db s1) (users_query_error e) of
        Some msg \<Rightarrow> errorHandler msg (log_p (Error, ''Error creating loan:'', [AStr msg]) s1)
      | None \<Rightarrow>
          if vb_userId vb \<notin> users (p_db s1) then
            (\<lparr>http_status = 404, http_json = ErrorJson ''User not found''\<rparr>,
             log_p (Warn, ''User not found: ${userId}'', [AInt (Some (vb_userId vb))]) s1)
          else
            (case query_error (p_db s1) (insert_error e) of
               Some msg \<Rightarrow> errorHandler msg (log_p (Error, ''Error creating loan:'', [AStr msg]) s1)
             | None \<Rightarrow>
                 (case insert_loan (p_db s1)
                         \<lparr>loan_userId = vb_userId vb, loanAmount = Some (vb_loanAmount vb),
                          propertyAddress = vb_propertyAddress vb,
                          status = PENDING_VERIFICATION\<rparr> of
                    (lid, d) \<Rightarrow>
                      (let s2 = s1\<lparr>p_db := d\<rparr>;
                           s4 = (case sendSQSMessage (p_send_error e)
                                        \<lparr>loanId = Some lid, userId = Some (vb_userId vb),
                                         action = Some ''VERIFY_DOCUMENTS'',
                                         timestamp = Some (p_now e)\<rparr> s2 of
                                   (None, s3) \<Rightarrow> s3
                                 | (Some msg, s3) \<Rightarrow>
                                     log_p (Error, ''Failed to send SQS message, but loan created:'',
                                            [AStr msg]) s3);
                           s5 = log_p (Info, ''Loan created successfully: ${loanId}'', [AInt (Some lid)]) s4
                       in (\<lparr>http_status = 201,
                            http_json = LoanCreated ''Loan created successfully'' lid PENDING_VERIFICATION\<rparr>,
                           s5)))))"

section \<open>Notions used in the statements\<close>

text \<open>The status \<^verbatim>\<open>processMessage\<close> writes for a draw (\<^verbatim>\<open>newStatus\<close>), and the messages
  it sends to the eligibility queue for that draw: one when the verification passes and
  \<^verbatim>\<open>sqs.sendMessage\<close> succeeds, none otherwise.\<close>

definition outcome :: "venv \<Rightarrow> loan_status" where
  "outcome e = (if random e < 0.9 then VERIFIED else VERIFICATION_FAILED)"

definition forwarded :: "venv \<Rightarrow> envelope \<Rightarrow> envelope list" where
  "forwarded e b =
     (if random e < 0.9 \<and> send_error e = None
      then [\<lparr>loanId = loanId b, userId = userId b, action = Some ''CHECK_ELIGIBILITY'',
             timestamp = Some (now e)\<rparr>]
      else [])"

text \<open>The two log lines of the Lambda that speak of the notification.\<close>

definition notification_log :: "log_entry \<Rightarrow> bool" where
  "notification_log l =
     (fst (snd l) = ''Published approval notification for loan ${loanId}'' \<or>
      fst (snd l) = ''Failed to publish SNS notification for loan ${loanId}'')"

text \<open>The state in which the handler enters its loop over \<open>n\<close> records, once the
  connection is there.\<close>

definition loop_entry :: "lambda_world \<Rightarrow> nat \<Rightarrow> lstate" where
  "loop_entry w n =
     \<lparr>l_loans = w_loans w, sns_calls = w_sns_calls w, sns_topic = w_sns_topic w,
      l_log = w_log w @ [(Info, ''Eligibility Lambda triggered with event'', [ANat n]),
                         (Info, ''Database connection established'', [])],
      processedRecords = [], failedRecords = []\<rparr>"

section \<open>Sample inputs\<close>

text \<open>One user (id 1) and one loan (id 1) of 250000 with a given status; a message for a
  loan id and an action; environments in which the database answers and the draw, the
  queue and the topic are as given.\<close>

definition ex_loan :: "loan_status \<Rightarrow> real option \<Rightarrow> loan" where
  "ex_loan st amount =
     \<lparr>loan_userId = 1, loanAmount = amount, propertyAddress = ''1 Main St'', status = st\<rparr>"

definition ex_db :: "loan_status \<Rightarrow> database" where
  "ex_db st = \<lparr>pool = True, users = {1}, loans = [1 \<mapsto> ex_loan st (Some 250000)], auto_increment = 2\<rparr>"

definition ex_message :: "int \<Rightarrow> string \<Rightarrow> message" where
  "ex_message k a =
     \<lparr>ReceiptHandle = ''rh-1'',
      Body = Inr \<lparr>loanId = Some k, userId = Some 1, action = Some a, timestamp = Some ''t0''\<rparr>\<rparr>"

definition ex_vstate :: "loan_status \<Rightarrow> message list \<Rightarrow> vstate" where
  "ex_vstate st q =
     \<lparr>db = ex_db st, doc_verification_queue = q, eligibility_queue = [], logger = []\<rparr>"

definition ex_venv :: "real \<Rightarrow> string option \<Rightarrow> string option \<Rightarrow> venv" where
  "ex_venv r send del =
     \<lparr>random = r, db_error = None, send_error = send, delete_error = del, now = ''t1''\<rparr>"

definition ex_venvs :: "real \<Rightarrow> string option \<Rightarrow> string option \<Rightarrow> nat \<Rightarrow> venv" where
  "ex_venvs r send del i = ex_venv r send del"

text \<open>A poll that verifies loan 1 and forwards it, but whose \<^verbatim>\<open>deleteMessage\<close> fails, and
  the poll after it, which receives the same message again.\<close>

definition ex_first_poll :: vstate where
  "ex_first_poll =
     fst (pollMessages None (ex_venvs 0.5 None (Some ''timeout''))
            (ex_vstate PENDING_VERIFICATION [ex_message 1 ''VERIFY_DOCUMENTS'']))"

definition ex_second_poll :: "real \<Rightarrow> vstate" where
  "ex_second_poll r = fst (pollMessages None (ex_venvs r None None) ex_first_poll)"

definition ex_record :: "int \<Rightarrow> sqs_record" where
  "ex_record k =
     \<lparr>messageId = ''mid-1'',
      body = Inr \<lparr>loanId = Some k, userId = Some 1, action = Some ''CHECK_ELIGIBILITY'',
                  timestamp = Some ''t1''\<rparr>\<rparr>"

definition ex_lenv :: "real \<Rightarrow> string option \<Rightarrow> lenv" where
  "ex_lenv r pub =
     \<lparr>l_random = r, select_error = None, update_error = None, publish_error = pub, l_now = ''t2''\<rparr>"

definition ex_lenvs :: "real \<Rightarrow> string option \<Rightarrow> nat \<Rightarrow> lenv" where
  "ex_lenvs r pub i = ex_lenv r pub"

definition ex_henv :: "real \<Rightarrow> string option \<Rightarrow> string option \<Rightarrow> henv" where
  "ex_henv r pub topic =
     \<lparr>connect_error = None, end_error = None, topic_arn = topic, per_record = ex_lenvs r pub\<rparr>"

definition ex_world :: "loan_status \<Rightarrow> real option \<Rightarrow> lambda_world" where
  "ex_world st amount =
     \<lparr>w_loans = [1 \<mapsto> ex_loan st amount], w_sns_calls = [], w_sns_topic = [], w_log = []\<rparr>"

definition ex_pstate :: pstate where
  "ex_pstate = \<lparr>p_db = ex_db APPROVED, p_doc_verification_queue = [], p_logger = []\<rparr>"

definition ex_penv :: "string option \<Rightarrow> penv" where
  "ex_penv send =
     \<lparr>users_query_error = None, insert_error = None, p_send_error = send, p_now = ''t0''\<rparr>"

definition ex_body :: "int \<Rightarrow> validatedBody" where
  "ex_body u = \<lparr>vb_userId = u, vb_loanAmount = 300000, vb_propertyAddress = ''2 Side St''\<rparr>"

section \<open>Properties of the document verification service\<close>

lemmas ex_v_defs = ex_loan_def ex_db_def ex_message_def ex_vstate_def ex_venv_def ex_venvs_def

lemmas worker_defs =
  pollMessages_def handle_message_def processMessage_def processing_failed_def verifyDocuments_def
  db_update_status_def query_error_def update_status_def deleteMessage_def log_v_def Let_def

subsection \<open>What one call of processMessage does\<close>

lemma processMessage_queue:
  "doc_verification_queue (snd (processMessage e s m)) = doc_verification_queue s"
  by (simp add: processMessage_def processing_failed_def verifyDocuments_def log_v_def Let_def
      split: sum.splits option.splits)

lemma processMessage_pool:
  "pool (db (snd (processMessage e s m))) = pool (db s)"
  by (simp add: processMessage_def processing_failed_def verifyDocuments_def log_v_def Let_def
      db_update_status_def split: sum.splits option.splits)

lemma processMessage_id: "result_id (fst (processMessage e s m)) = ReceiptHandle m"
  by (simp add: processMessage_def processing_failed_def verifyDocuments_def log_v_def Let_def
      split: sum.splits option.splits)

lemma processMessage_verify_db:
  assumes "Body m = Inr b" "action b = Some ''VERIFY_DOCUMENTS''" "loanId b = Some k"
    "pool (db s)" "db_error e = None"
  shows "db (snd (processMessage e s m)) =
           (db s)\<lparr>loans := update_status (loans (db s))
              (if random e < 0.9 then VERIFIED else VERIFICATION_FAILED) k\<rparr>"
  using assms
  by (simp add: processMessage_def processing_failed_def verifyDocuments_def log_v_def Let_def
      db_update_status_def query_error_def split: option.splits)

lemma processMessage_verify_success:
  assumes "Body m = Inr b" "action b = Some ''VERIFY_DOCUMENTS''" "loanId b = Some k"
    "pool (db s)" "db_error e = None"
  shows "success (fst (processMessage e s m)) = (random e < 0.9 \<longrightarrow> send_error e = None)"
  using assms
  by (simp add: processMessage_def processing_failed_def verifyDocuments_def log_v_def Let_def
      db_update_status_def query_error_def split: option.splits)

lemma processMessage_verify_enqueue:
  assumes "Body m = Inr b" "action b = Some ''VERIFY_DOCUMENTS''" "loanId b = Some k"
    "pool (db s)" "db_error e = None"
  shows "eligibility_queue (snd (processMessage e s m)) =
           eligibility_queue s @
             (if random e < 0.9 \<and> send_error e = None
              then [\<lparr>loanId = Some k, userId = userId b, action = Some ''CHECK_ELIGIBILITY'',
                     timestamp = Some (now e)\<rparr>]
              else [])"
  using assms
  by (simp add: processMessage_def processing_failed_def verifyDocuments_def log_v_def Let_def
      db_update_status_def query_error_def split: option.splits)

lemma processMessage_send_fails:
  assumes "Body m = Inr b" "action b = Some ''VERIFY_DOCUMENTS''" "random e < 0.9"
    "send_error e = Some msg"
  shows "\<not> success (fst (processMessage e s m))"
  using assms
  by (simp add: processMessage_def processing_failed_def verifyDocuments_def log_v_def Let_def
      split: sum.splits option.splits)

lemma processMessage_unknown_action:
  assumes "Body m = Inr b" "action b \<noteq> Some ''VERIFY_DOCUMENTS''"
  shows "processMessage e s m =
           (\<lparr>result_id = ReceiptHandle m, success = False\<rparr>,
            s\<lparr>logger := logger s @
                 [(Info, ''Processing message:'', [ABody b]),
                  (Warn, ''Unknown action: ${action}'',
                   [AStr (case action b of None \<Rightarrow> ''undefined'' | Some a \<Rightarrow> a)])]\<rparr>)"
  using assms
  by (simp add: processMessage_def log_v_def Let_def)

subsection \<open>The loop of pollMessages\<close>

lemma handle_message_queue:
  "doc_verification_queue (handle_message e s m) =
     (if success (fst (processMessage e s m)) \<and> delete_error e = None
      then deleteMessage (ReceiptHandle m) (doc_verification_queue s)
      else doc_verification_queue s)"
proof (cases "processMessage e s m")
  case (Pair res s1)
  have "doc_verification_queue s1 = doc_verification_queue s" "result_id res = ReceiptHandle m"
    using processMessage_queue [of e s m] processMessage_id [of e s m] Pair by simp_all
  with Pair show ?thesis
    by (simp add: handle_message_def log_v_def split: option.splits)
qed

lemma handle_message_db: "db (handle_message e s m) = db (snd (processMessage e s m))"
  by (cases "processMessage e s m") (simp add: handle_message_def log_v_def split: option.splits)

lemma handle_message_eligibility:
  "eligibility_queue (handle_message e s m) = eligibility_queue (snd (processMessage e s m))"
  by (cases "processMessage e s m") (simp add: handle_message_def log_v_def split: option.splits)

text \<open>A message of the queue whose processing reports failure survives the loop, as long
  as no other message of the batch carries its receipt handle.\<close>

lemma for_messages_keeps:
  assumes "m \<in> set (doc_verification_queue s)"
    and "\<And>j s'. j < length ms \<Longrightarrow> ReceiptHandle (ms ! j) = ReceiptHandle m \<Longrightarrow>
           \<not> success (fst (processMessage (es (i + j)) s' (ms ! j)))"
  shows "m \<in> set (doc_verification_queue (for_messages es i s ms))"
  using assms
proof (induction ms arbitrary: i s)
  case Nil
  then show ?case by simp
next
  case (Cons x xs)
  have keep: "m \<in> set (doc_verification_queue (handle_message (es i) s x))"
  proof (cases "ReceiptHandle x = ReceiptHandle m")
    case True
    then have "\<not> success (fst (processMessage (es i) s x))"
      using Cons.prems(2) [of 0 s] by simp
    then show ?thesis using Cons.prems(1) by (simp add: handle_message_queue)
  next
    case False
    then show ?thesis using Cons.prems(1)
      by (auto simp add: handle_message_queue deleteMessage_def)
  qed
  have rest: "\<And>j s'. j < length xs \<Longrightarrow> ReceiptHandle (xs ! j) = ReceiptHandle m \<Longrightarrow>
           \<not> success (fst (processMessage (es (Suc i + j)) s' (xs ! j)))"
    using Cons.prems(2) [of "Suc _"] by simp
  show ?case using Cons.IH [OF keep rest] by simp
qed

lemma pollMessages_keeps:
  assumes "distinct (map ReceiptHandle (doc_verification_queue s))"
    and "i < length (doc_verification_queue s)" "doc_verification_queue s ! i = m"
    and "\<And>s'. \<not> success (fst (processMessage (es i) s' m))"
  shows "m \<in> set (doc_verification_queue (fst (pollMessages receive_error es s)))"
proof -
  let ?q = "doc_verification_queue s"
  have m_in: "m \<in> set ?q" using assms(2,3) by auto
  show ?thesis
  proof (cases receive_error)
    case (Some msg)
    then show ?thesis using m_in by (simp add: pollMessages_def log_v_def)
  next
    case None
    have "\<And>j s'. j < length (take 10 ?q) \<Longrightarrow> ReceiptHandle (take 10 ?q ! j) = ReceiptHandle m \<Longrightarrow>
           \<not> success (fst (processMessage (es (0 + j)) s' (take 10 ?q ! j)))"
    proof -
      fix j s'
      assume j: "j < length (take 10 ?q)" and h: "ReceiptHandle (take 10 ?q ! j) = ReceiptHandle m"
      then have jq: "j < length ?q" and eq: "take 10 ?q ! j = ?q ! j" by simp_all
      have "map ReceiptHandle ?q ! j = map ReceiptHandle ?q ! i"
        using h eq jq assms(2,3) by simp
      moreover have "j < length (map ReceiptHandle ?q)" "i < length (map ReceiptHandle ?q)"
        using jq assms(2) by simp_all
      ultimately have "j = i"
        using nth_eq_iff_index_eq [OF assms(1)] by blast
      then show "\<not> success (fst (processMessage (es (0 + j)) s' (take 10 ?q ! j)))"
        using assms(3,4) eq by simp
    qed
    then have "m \<in> set (doc_verification_queue (for_messages es 0
         (log_v (Info, ''Received ${data.Messages.length} messages from queue'',
                        [ANat (length (take 10 ?q))]) s) (take 10 ?q)))"
      using m_in by (intro for_messages_keeps) (simp_all add: log_v_def)
    then show ?thesis using None m_in
      by (auto simp add: pollMessages_def Let_def log_v_def)
  qed
qed

lemma ex_first_poll_fields:
  "db ex_first_poll = ex_db VERIFIED"
  "doc_verification_queue ex_first_poll = [ex_message 1 ''VERIFY_DOCUMENTS'']"
  "eligibility_queue ex_first_poll =
     [\<lparr>loanId = Some 1, userId = Some 1, action = Some ''CHECK_ELIGIBILITY'',
       timestamp = Some ''t1''\<rparr>]"
  by (simp_all add: ex_first_poll_def ex_v_defs worker_defs)

subsection \<open>Redelivery\<close>

text \<open>
  C2 (as the code has it). \<^verbatim>\<open>processMessage\<close> does not read the status, so a second delivery
  of the same \<^verbatim>\<open>VERIFY_DOCUMENTS\<close> message repeats the whole step: for a loan that exists
  and database calls that succeed, each delivery writes the status its own draw gives (the
  second write replaces the first), and each delivery whose verification passes and whose
  send succeeds adds one \<^verbatim>\<open>CHECK_ELIGIBILITY\<close> message, so two deliveries add up to two.
\<close>

theorem redelivery_writes_and_enqueues_again:
  assumes "Body m = Inr b" and "action b = Some ''VERIFY_DOCUMENTS''" and "loanId b = Some k"
    and "loans (db s) k = Some row" and "pool (db s)"
    and "db_error e1 = None" and "db_error e2 = None"
  shows "loans (db (handle_message e1 s m)) k = Some (row\<lparr>status := outcome e1\<rparr>) \<and>
         loans (db (handle_message e2 (handle_message e1 s m) m)) k = Some (row\<lparr>status := outcome e2\<rparr>) \<and>
         eligibility_queue (handle_message e2 (handle_message e1 s m) m) =
           eligibility_queue s @ forwarded e1 b @ forwarded e2 b"
proof -
  let ?s1 = "handle_message e1 s m"
  have db1: "db ?s1 = (db s)\<lparr>loans := update_status (loans (db s)) (outcome e1) k\<rparr>"
    using processMessage_verify_db [OF assms(1,2,3,5,6)] by (simp add: handle_message_db outcome_def)
  then have pool1: "pool (db ?s1)" using assms(5) by simp
  have row1: "loans (db ?s1) k = Some (row\<lparr>status := outcome e1\<rparr>)"
    using db1 assms(4) by (simp add: update_status_def)
  have db2: "db (handle_message e2 ?s1 m) = (db ?s1)\<lparr>loans := update_status (loans (db ?s1)) (outcome e2) k\<rparr>"
    using processMessage_verify_db [OF assms(1,2,3) pool1 assms(7)]
    by (simp add: handle_message_db outcome_def)
  have row2: "loans (db (handle_message e2 ?s1 m)) k = Some (row\<lparr>status := outcome e2\<rparr>)"
    using db2 row1 by (simp add: update_status_def)
  have q1: "eligibility_queue ?s1 = eligibility_queue s @ forwarded e1 b"
    using processMessage_verify_enqueue [OF assms(1,2,3,5,6)] assms(3)
    by (simp add: handle_message_eligibility forwarded_def)
  have q2: "eligibility_queue (handle_message e2 ?s1 m) = eligibility_queue ?s1 @ forwarded e2 b"
    using processMessage_verify_enqueue [OF assms(1,2,3) pool1 assms(7)] assms(3)
    by (simp add: handle_message_eligibility forwarded_def)
  show ?thesis using row1 row2 q1 q2 by simp
qed

theorem redelivery_writes_and_enqueues_again_witness:
  "loans (db (handle_message (ex_venv 0.5 None None)
       (handle_message (ex_venv 0.95 None None) (ex_vstate PENDING_VERIFICATION []) (ex_message 1 ''VERIFY_DOCUMENTS''))
       (ex_message 1 ''VERIFY_DOCUMENTS''))) 1 = Some (ex_loan VERIFIED (Some 250000)) \<and>
   length (eligibility_queue (handle_message (ex_venv 0.5 None None)
       (handle_message (ex_venv 0.5 None None) (ex_vstate PENDING_VERIFICATION []) (ex_message 1 ''VERIFY_DOCUMENTS''))
       (ex_message 1 ''VERIFY_DOCUMENTS''))) = 2"
  using redelivery_writes_and_enqueues_again [of "ex_message 1 ''VERIFY_DOCUMENTS''"
      "\<lparr>loanId = Some 1, userId = Some 1, action = Some ''VERIFY_DOCUMENTS'', timestamp = Some ''t0''\<rparr>"
      1 "ex_vstate PENDING_VERIFICATION []" "ex_loan PENDING_VERIFICATION (Some 250000)"
      "ex_venv 0.95 None None" "ex_venv 0.5 None None"]
    redelivery_writes_and_enqueues_again [of "ex_message 1 ''VERIFY_DOCUMENTS''"
      "\<lparr>loanId = Some 1, userId = Some 1, action = Some ''VERIFY_DOCUMENTS'', timestamp = Some ''t0''\<rparr>"
      1 "ex_vstate PENDING_VERIFICATION []" "ex_loan PENDING_VERIFICATION (Some 250000)"
      "ex_venv 0.5 None None" "ex_venv 0.5 None None"]
  by (simp add: ex_v_defs outcome_def forwarded_def)

text \<open>The sample run: the first poll verifies loan 1 and forwards it, the deletion fails, the
  message is received again; a second passing draw leaves two messages in the eligibility
  queue, a second failing draw turns \<^verbatim>\<open>VERIFIED\<close> into \<^verbatim>\<open>VERIFICATION_FAILED\<close>.\<close>

theorem redelivery_repeats_effects:
  "doc_verification_queue ex_first_poll = [ex_message 1 ''VERIFY_DOCUMENTS''] \<and>
   map_option status (loans (db ex_first_poll) 1) = Some VERIFIED \<and>
   length (eligibility_queue ex_first_poll) = 1 \<and>
   length (eligibility_queue (ex_second_poll 0.5)) = 2 \<and>
   map_option status (loans (db (ex_second_poll 0.95)) 1) = Some VERIFICATION_FAILED"
  by (simp add: ex_second_poll_def ex_first_poll_fields ex_v_defs worker_defs)

subsection \<open>A failed send keeps the message\<close>

text \<open>
  C5. When the verification of a \<^verbatim>\<open>VERIFY_DOCUMENTS\<close> message passes and the send of the
  \<^verbatim>\<open>CHECK_ELIGIBILITY\<close> message fails, \<^verbatim>\<open>processMessage\<close> reports failure and \<^verbatim>\<open>pollMessages\<close>
  does not delete the message: after the poll it is still in the verification queue (from
  where the broker hands it out again). Receipt handles are those of one queue, so no two
  messages share one.
\<close>

theorem enqueue_failure_keeps_message:
  assumes "distinct (map ReceiptHandle (doc_verification_queue s))"
    and "i < length (doc_verification_queue s)" and "doc_verification_queue s ! i = m"
    and "Body m = Inr b" and "action b = Some ''VERIFY_DOCUMENTS''"
    and "random (es i) < 0.9" and "send_error (es i) = Some msg"
  shows "m \<in> set (doc_verification_queue (fst (pollMessages None es s)))"
  using assms(1-3)
  by (rule pollMessages_keeps) (rule processMessage_send_fails [OF assms(4-7)])

theorem enqueue_failure_keeps_message_witness:
  "ex_message 1 ''VERIFY_DOCUMENTS'' \<in>
     set (doc_verification_queue (fst (pollMessages None (ex_venvs 0.5 (Some ''queue down'') None)
            (ex_vstate PENDING_VERIFICATION [ex_message 1 ''VERIFY_DOCUMENTS'']))))"
  by (rule enqueue_failure_keeps_message [where i = 0 and msg = "''queue down''"
        and b = "\<lparr>loanId = Some 1, userId = Some 1, action = Some ''VERIFY_DOCUMENTS'',
                  timestamp = Some ''t0''\<rparr>"])
     (simp_all add: ex_v_defs)

subsection \<open>A message for a loan that does not exist\<close>

text \<open>
  C6 (as the code has it). The verification service never reads the \<^verbatim>\<open>loans\<close> table. For a
  \<^verbatim>\<open>VERIFY_DOCUMENTS\<close> message whose loan id has no row, the \<^verbatim>\<open>UPDATE\<close> matches nothing
  and the database is unchanged; when the verification passes a \<^verbatim>\<open>CHECK_ELIGIBILITY\<close>
  message for that id is sent all the same; the message is deleted when the step succeeded
  and the deletion went through.
\<close>

theorem missing_loan_not_looked_up:
  assumes "Body m = Inr b" and "action b = Some ''VERIFY_DOCUMENTS''" and "loanId b = Some k"
    and "loans (db s) k = None" and "pool (db s)" and "db_error e = None"
  shows "db (handle_message e s m) = db s \<and>
         eligibility_queue (handle_message e s m) =
           eligibility_queue s @
             (if random e < 0.9 \<and> send_error e = None
              then [\<lparr>loanId = Some k, userId = userId b, action = Some ''CHECK_ELIGIBILITY'',
                     timestamp = Some (now e)\<rparr>]
              else []) \<and>
         doc_verification_queue (handle_message e s m) =
           (if (random e < 0.9 \<longrightarrow> send_error e = None) \<and> delete_error e = None
            then deleteMessage (ReceiptHandle m) (doc_verification_queue s)
            else doc_verification_queue s)"
proof -
  have "update_status (loans (db s)) st k = loans (db s)" for st
    using assms(4) by (simp add: update_status_def)
  then have "db (handle_message e s m) = db s"
    using processMessage_verify_db [OF assms(1,2,3,5,6)] by (simp add: handle_message_db)
  then show ?thesis
    using processMessage_verify_enqueue [OF assms(1,2,3,5,6)]
      processMessage_verify_success [OF assms(1,2,3,5,6)]
    by (simp add: handle_message_eligibility handle_message_queue)
qed

theorem missing_loan_not_looked_up_witness:
  "db (handle_message (ex_venv 0.5 None None)
         (ex_vstate PENDING_VERIFICATION [ex_message 7 ''VERIFY_DOCUMENTS''])
         (ex_message 7 ''VERIFY_DOCUMENTS'')) = ex_db PENDING_VERIFICATION \<and>
   eligibility_queue (handle_message (ex_venv 0.5 None None)
         (ex_vstate PENDING_VERIFICATION [ex_message 7 ''VERIFY_DOCUMENTS''])
         (ex_message 7 ''VERIFY_DOCUMENTS'')) =
      [\<lparr>loanId = Some 7, userId = Some 1, action = Some ''CHECK_ELIGIBILITY'',
          timestamp = Some ''t1''\<rparr>] \<and>
   doc_verification_queue (handle_message (ex_venv 0.5 None None)
         (ex_vstate PENDING_VERIFICATION [ex_message 7 ''VERIFY_DOCUMENTS''])
         (ex_message 7 ''VERIFY_DOCUMENTS'')) = []"
  using missing_loan_not_looked_up [of "ex_message 7 ''VERIFY_DOCUMENTS''"
      "\<lparr>loanId = Some 7, userId = Some 1, action = Some ''VERIFY_DOCUMENTS'', timestamp = Some ''t0''\<rparr>"
      7 "ex_vstate PENDING_VERIFICATION [ex_message 7 ''VERIFY_DOCUMENTS'']" "ex_venv 0.5 None None"]
  by (simp add: ex_v_defs deleteMessage_def)

text \<open>The sample run: loan 7 has no row, the draw passes, and the eligibility queue receives a
  message for loan 7.\<close>

theorem missing_loan_forwarded:
  "loans (db (ex_vstate PENDING_VERIFICATION [ex_message 7 ''VERIFY_DOCUMENTS''])) 7 = None \<and>
   eligibility_queue (fst (pollMessages None (ex_venvs 0.5 None None)
        (ex_vstate PENDING_VERIFICATION [ex_message 7 ''VERIFY_DOCUMENTS''])))
     = [\<lparr>loanId = Some 7, userId = Some 1, action = Some ''CHECK_ELIGIBILITY'',
          timestamp = Some ''t1''\<rparr>]"
  by (simp add: ex_v_defs worker_defs)

subsection \<open>A message with another action\<close>

text \<open>
  C7 (as the code has it). For a message whose action is not \<^verbatim>\<open>VERIFY_DOCUMENTS\<close> the service
  logs a warning and \<^verbatim>\<open>processMessage\<close> returns \<^verbatim>\<open>success: false\<close>: nothing is written to
  the database, nothing is sent, and the message is not deleted, so it stays in the
  queue. The state after the step is the state before it with two more log lines.
\<close>

theorem unknown_action_not_deleted:
  assumes "Body m = Inr b" and "action b \<noteq> Some ''VERIFY_DOCUMENTS''"
  shows "handle_message e s m =
           s\<lparr>logger := logger s @
                [(Info, ''Processing message:'', [ABody b]),
                 (Warn, ''Unknown action: ${action}'',
                  [AStr (case action b of None \<Rightarrow> ''undefined'' | Some a \<Rightarrow> a)])]\<rparr>"
  using assms by (simp add: handle_message_def processMessage_unknown_action)

theorem unknown_action_not_deleted_witness:
  "handle_message (ex_venv 0.5 None None)
       (ex_vstate PENDING_VERIFICATION [ex_message 1 ''ARCHIVE'']) (ex_message 1 ''ARCHIVE'') =
     (ex_vstate PENDING_VERIFICATION [ex_message 1 ''ARCHIVE''])
       \<lparr>logger := 
          [(Info, ''Processing message:'',
            [ABody \<lparr>loanId = Some 1, userId = Some 1, action = Some ''ARCHIVE'', timestamp = Some ''t0''\<rparr>]),
           (Warn, ''Unknown action: ${action}'', [AStr ''ARCHIVE''])]\<rparr>"
  using unknown_action_not_deleted [of "ex_message 1 ''ARCHIVE''"
      "\<lparr>loanId = Some 1, userId = Some 1, action = Some ''ARCHIVE'', timestamp = Some ''t0''\<rparr>"
      "ex_venv 0.5 None None" "ex_vstate PENDING_VERIFICATION [ex_message 1 ''ARCHIVE'']"]
  by (simp add: ex_message_def ex_vstate_def)

text \<open>The sample run: a poll over a queue that holds one message with the action \<^verbatim>\<open>ARCHIVE\<close>
  leaves that message in the queue.\<close>

theorem unknown_action_redelivered:
  "doc_verification_queue (fst (pollMessages None (ex_venvs 0.5 None None)
        (ex_vstate PENDING_VERIFICATION [ex_message 1 ''ARCHIVE'']))) = [ex_message 1 ''ARCHIVE'']"
  by (simp add: ex_v_defs worker_defs)

section \<open>Properties of the eligibility Lambda\<close>

lemmas ex_l_defs = ex_record_def ex_lenv_def ex_lenvs_def ex_henv_def ex_world_def ex_loan_def

lemmas lambda_defs =
  handler_def close_connection_def log_w_def process_record_def record_failed_def
  publish_approval_def log_l_def calculateEligibility_def double_0_7_def truthy_str_def
  update_status_def Let_def

lemmas process_record_defs =
  process_record_def record_failed_def publish_approval_def log_l_def calculateEligibility_def
  truthy_str_def Let_def

subsection \<open>The table\<close>

lemma update_status_amount:
  "map_option loanAmount (update_status tbl st k k') = map_option loanAmount (tbl k')"
  by (simp add: update_status_def split: option.splits)

lemma update_status_other: "k' \<noteq> k \<Longrightarrow> update_status tbl st k k' = tbl k'"
  by (simp add: update_status_def split: option.splits)

lemma update_status_same:
  "tbl k = Some row \<Longrightarrow> update_status tbl st k k = Some (row\<lparr>status := st\<rparr>)"
  by (simp add: update_status_def)

lemma process_record_amount:
  "map_option loanAmount (l_loans (process_record e topic s r) k) = map_option loanAmount (l_loans s k)"
  by (simp add: process_record_defs update_status_amount split: sum.splits option.splits)

lemma for_records_amount:
  "map_option loanAmount (l_loans (for_records es topic i s rs) k) = map_option loanAmount (l_loans s k)"
  by (induction rs arbitrary: i s) (simp_all add: process_record_amount)

lemma process_record_other:
  assumes "\<And>b. body r = Inr b \<Longrightarrow> loanId b \<noteq> Some k"
  shows "l_loans (process_record e topic s r) k = l_loans s k"
  using assms
  by (auto simp add: process_record_defs update_status_def split: sum.splits option.splits)

lemma for_records_other:
  assumes "\<And>r b. r \<in> set rs \<Longrightarrow> body r = Inr b \<Longrightarrow> loanId b \<noteq> Some k"
  shows "l_loans (for_records es topic i s rs) k = l_loans s k"
  using assms
proof (induction rs arbitrary: i s)
  case Nil
  show ?case by simp
next
  case (Cons r rs)
  have "l_loans (process_record (es i) topic s r) k = l_loans s k"
    by (rule process_record_other) (use Cons.prems in auto)
  moreover have "l_loans (for_records es topic (Suc i) (process_record (es i) topic s r) rs) k =
      l_loans (process_record (es i) topic s r) k"
    by (rule Cons.IH) (use Cons.prems in auto)
  ultimately show ?case by simp
qed

subsection \<open>The loop\<close>

lemma for_records_append:
  "for_records es topic i s (xs @ ys) =
     for_records es topic (i + length xs) (for_records es topic i s xs) ys"
  by (induction xs arbitrary: i s) simp_all

lemma process_record_processed_mono:
  "set (processedRecords s) \<subseteq> set (processedRecords (process_record e topic s r))"
  by (auto simp add: process_record_defs split: sum.splits option.splits)

lemma process_record_failed_mono:
  "set (failedRecords s) \<subseteq> set (failedRecords (process_record e topic s r))"
  by (auto simp add: process_record_defs split: sum.splits option.splits)

lemma process_record_log_mono:
  "set (l_log s) \<subseteq> set (l_log (process_record e topic s r))"
  by (auto simp add: process_record_defs split: sum.splits option.splits)

lemma for_records_processed_mono:
  "set (processedRecords s) \<subseteq> set (processedRecords (for_records es topic i s rs))"
proof (induction rs arbitrary: i s)
  case Nil
  show ?case by simp
next
  case (Cons r rs)
  have "set (processedRecords s) \<subseteq> set (processedRecords (process_record (es i) topic s r))"
    by (rule process_record_processed_mono)
  also have "\<dots> \<subseteq> set (processedRecords (for_records es topic (Suc i) (process_record (es i) topic s r) rs))"
    by (rule Cons.IH)
  finally show ?case by simp
qed

lemma for_records_failed_mono:
  "set (failedRecords s) \<subseteq> set (failedRecords (for_records es topic i s rs))"
proof (induction rs arbitrary: i s)
  case Nil
  show ?case by simp
next
  case (Cons r rs)
  have "set (failedRecords s) \<subseteq> set (failedRecords (process_record (es i) topic s r))"
    by (rule process_record_failed_mono)
  also have "\<dots> \<subseteq> set (failedRecords (for_records es topic (Suc i) (process_record (es i) topic s r) rs))"
    by (rule Cons.IH)
  finally show ?case by simp
qed

lemma for_records_log_mono:
  "set (l_log s) \<subseteq> set (l_log (for_records es topic i s rs))"
proof (induction rs arbitrary: i s)
  case Nil
  show ?case by simp
next
  case (Cons r rs)
  have "set (l_log s) \<subseteq> set (l_log (process_record (es i) topic s r))"
    by (rule process_record_log_mono)
  also have "\<dots> \<subseteq> set (l_log (for_records es topic (Suc i) (process_record (es i) topic s r) rs))"
    by (rule Cons.IH)
  finally show ?case by simp
qed

subsection \<open>One record\<close>

lemma publish_approval_fields:
  "l_loans (publish_approval e topic b res s) = l_loans s"
  "processedRecords (publish_approval e topic b res s) = processedRecords s"
  "failedRecords (publish_approval e topic b res s) = failedRecords s"
  by (simp_all add: publish_approval_def log_l_def Let_def split: option.splits)

lemma process_record_check:
  assumes "body r = Inr b" "action b = Some ''CHECK_ELIGIBILITY''" "loanId b = Some k" "k \<noteq> 0"
    "l_loans s k = Some row" "loanAmount row = Some a" "0 < a"
    "select_error e = None" "update_error e = None"
  shows "process_record e topic s r =
     (let res = \<lparr>eligible = (l_random e < double_0_7 \<and> a < 1000000),
                 reason = (if l_random e < double_0_7 \<and> a < 1000000 then ''Approved based on eligibility rules''
                           else if a \<ge> 1000000 then ''Loan amount exceeds maximum threshold''
                           else ''Does not meet eligibility criteria'')\<rparr>;
          newStatus = (if eligible res then APPROVED else REJECTED);
          s1 = log_l (Info, ''Processing message'', [AInt (Some k), AStr ''CHECK_ELIGIBILITY'']) s;
          s3 = log_l (Info, ''Loan ${loanId} status updated to ${newStatus}'',
                      [AInt (Some k), AStatus newStatus, AStr (reason res)])
                 (s1\<lparr>l_loans := (l_loans s)(k \<mapsto> row\<lparr>status := newStatus\<rparr>)\<rparr>);
          s4 = publish_approval e topic b res s3
      in s4\<lparr>processedRecords := processedRecords s4 @
              [\<lparr>p_recordId = messageId r, p_loanId = Some k, p_status = newStatus\<rparr>]\<rparr>)"
  using assms
  by (simp add: process_record_def calculateEligibility_def truthy_str_def
      update_status_def log_l_def Let_def)

lemma process_record_check_table:
  assumes "body r = Inr b" "action b = Some ''CHECK_ELIGIBILITY''" "loanId b = Some k" "k \<noteq> 0"
    "l_loans s k = Some row" "loanAmount row = Some a" "0 < a"
    "select_error e = None" "update_error e = None"
  shows "l_loans (process_record e topic s r) k =
           Some (row\<lparr>status := (if l_random e < double_0_7 \<and> a < 1000000 then APPROVED else REJECTED)\<rparr>)"
  by (simp add: process_record_check [OF assms] Let_def publish_approval_fields log_l_def)

lemma process_record_check_processed:
  assumes "body r = Inr b" "action b = Some ''CHECK_ELIGIBILITY''" "loanId b = Some k" "k \<noteq> 0"
    "l_loans s k = Some row" "loanAmount row = Some a" "0 < a"
    "select_error e = None" "update_error e = None"
  shows "processedRecords (process_record e topic s r) =
           processedRecords s @
             [\<lparr>p_recordId = messageId r, p_loanId = Some k,
               p_status = (if l_random e < double_0_7 \<and> a < 1000000 then APPROVED else REJECTED)\<rparr>]"
  by (simp add: process_record_check [OF assms] Let_def publish_approval_fields log_l_def)

lemma process_record_invalid_amount:
  assumes "body r = Inr b" "action b = Some ''CHECK_ELIGIBILITY''" "loanId b = Some k" "k \<noteq> 0"
    "l_loans s k = Some row" "case loanAmount row of None \<Rightarrow> True | Some a \<Rightarrow> a \<le> 0"
    "select_error e = None"
  shows "process_record e topic s r =
     s\<lparr>l_log := l_log s @ [(Info, ''Processing message'', [AInt (Some k), AStr ''CHECK_ELIGIBILITY'']),
                            (Error, ''Error processing record'', [AStr ''Invalid loan amount''])],
       failedRecords := failedRecords s @
         [\<lparr>f_recordId = messageId r, f_reason = ''Invalid loan amount''\<rparr>]\<rparr>"
  using assms
  by (simp add: process_record_defs split: option.splits)

lemma process_record_publish_failed:
  assumes "body r = Inr b" "action b = Some ''CHECK_ELIGIBILITY''" "loanId b = Some k" "k \<noteq> 0"
    "l_loans s k = Some row" "loanAmount row = Some a" "0 < a" "a < 1000000"
    "select_error e = None" "update_error e = None" "l_random e < double_0_7"
    "truthy_str topic" "publish_error e = Some msg"
  shows "(Error, ''Failed to publish SNS notification for loan ${loanId}'', [AInt (Some k), AStr msg])
           \<in> set (l_log (process_record e topic s r)) \<and>
         sns_topic (process_record e topic s r) = sns_topic s"
  using assms
  by (simp add: process_record_check [OF assms(1-7,9,10)] Let_def publish_approval_def log_l_def
      truthy_str_def split: option.splits)

lemma process_record_unpublished:
  assumes "\<not> truthy_str topic"
  shows "sns_calls (process_record e topic s r) = sns_calls s"
    and "sns_topic (process_record e topic s r) = sns_topic s"
    and "\<forall>l \<in> set (l_log (process_record e topic s r)). l \<in> set (l_log s) \<or> \<not> notification_log l"
  using assms
  by (auto simp add: process_record_defs notification_log_def split: sum.splits option.splits)

lemma for_records_unpublished:
  assumes "\<not> truthy_str topic"
  shows "sns_calls (for_records es topic i s rs) = sns_calls s \<and>
         sns_topic (for_records es topic i s rs) = sns_topic s \<and>
         (\<forall>l \<in> set (l_log (for_records es topic i s rs)). l \<in> set (l_log s) \<or> \<not> notification_log l)"
proof (induction rs arbitrary: i s)
  case Nil
  show ?case by simp
next
  case (Cons r rs)
  show ?case
    using process_record_unpublished [OF assms, of "es i" s r]
      Cons.IH [where s = "process_record (es i) topic s r" and i = "Suc i"]
    by auto
qed

subsection \<open>The handler\<close>

lemma handler_connected:
  assumes "connect_error h = None"
  shows "handler h w (Some rs) =
     (let s = for_records (per_record h) (topic_arn h) 0 (loop_entry w (length rs)) rs
      in (\<lparr>statusCode = 200,
           response_body = Completed ''Eligibility check completed''
             (length (processedRecords s)) (length (failedRecords s))
             (processedRecords s) (failedRecords s)\<rparr>,
          close_connection h
            \<lparr>w_loans = l_loans s, w_sns_calls = sns_calls s,
             w_sns_topic = sns_topic s, w_log = l_log s\<rparr>))"
  using assms by (simp add: handler_def loop_entry_def log_w_def Let_def)

lemma close_connection_fields:
  "w_loans (close_connection h w) = w_loans w"
  "w_sns_calls (close_connection h w) = w_sns_calls w"
  "w_sns_topic (close_connection h w) = w_sns_topic w"
  "set (w_log w) \<subseteq> set (w_log (close_connection h w))"
  "\<forall>l \<in> set (w_log (close_connection h w)). l \<in> set (w_log w) \<or> \<not> notification_log l"
  by (auto simp add: close_connection_def log_w_def notification_log_def split: option.splits)

text \<open>A \<^verbatim>\<open>CHECK_ELIGIBILITY\<close> record for a loan with a positive amount, anywhere in a batch:
  the handler answers 200, lists the record as processed with the status the policy gave,
  and that status is in the table at the end when no later record of the batch is for the
  same loan.\<close>

lemma handler_check_outcome:
  assumes conn: "connect_error h = None"
    and r: "body r = Inr b" "action b = Some ''CHECK_ELIGIBILITY''" "loanId b = Some k" "k \<noteq> 0"
    and row: "w_loans w k = Some row" "loanAmount row = Some a" "0 < a"
    and ok: "select_error (per_record h (length pre)) = None"
            "update_error (per_record h (length pre)) = None"
    and post: "\<And>r' b'. r' \<in> set post \<Longrightarrow> body r' = Inr b' \<Longrightarrow> loanId b' \<noteq> Some k"
    and st: "st = (if l_random (per_record h (length pre)) < double_0_7 \<and> a < 1000000 then APPROVED else REJECTED)"
  shows "statusCode (fst (handler h w (Some (pre @ r # post)))) = 200 \<and>
         \<lparr>p_recordId = messageId r, p_loanId = Some k, p_status = st\<rparr>
            \<in> set (details_processed (response_body (fst (handler h w (Some (pre @ r # post)))))) \<and>
         map_option status (w_loans (snd (handler h w (Some (pre @ r # post)))) k) = Some st"
proof -
  let ?es = "per_record h" and ?t = "topic_arn h"
  let ?init = "loop_entry w (length (pre @ r # post))"
  let ?Spre = "for_records ?es ?t 0 ?init pre"
  let ?S1 = "process_record (?es (length pre)) ?t ?Spre r"
  let ?S = "for_records ?es ?t (Suc (length pre)) ?S1 post"
  have split: "for_records ?es ?t 0 ?init (pre @ r # post) = ?S"
    by (simp add: for_records_append)
  have "map_option loanAmount (l_loans ?Spre k) = map_option loanAmount (l_loans ?init k)"
    by (rule for_records_amount)
  then obtain row' where row': "l_loans ?Spre k = Some row'" "loanAmount row' = Some a"
    using row by (auto simp add: loop_entry_def)
  have t1: "l_loans ?S1 k = Some (row'\<lparr>status := st\<rparr>)"
    unfolding st by (rule process_record_check_table [OF r row' row(3) ok])
  have p1: "\<lparr>p_recordId = messageId r, p_loanId = Some k, p_status = st\<rparr> \<in> set (processedRecords ?S1)"
  proof -
    have "processedRecords ?S1 = processedRecords ?Spre @
            [\<lparr>p_recordId = messageId r, p_loanId = Some k, p_status = st\<rparr>]"
      unfolding st by (rule process_record_check_processed [OF r row' row(3) ok])
    then show ?thesis by simp
  qed
  have t: "l_loans ?S k = Some (row'\<lparr>status := st\<rparr>)"
    using for_records_other [of post k ?es ?t "Suc (length pre)" ?S1] post t1 by simp
  have p: "\<lparr>p_recordId = messageId r, p_loanId = Some k, p_status = st\<rparr> \<in> set (processedRecords ?S)"
    using p1 for_records_processed_mono [of ?S1 ?es ?t "Suc (length pre)" post] by blast
  show ?thesis
    unfolding handler_connected [OF conn] split Let_def
    using t p by (simp add: close_connection_fields)
qed

subsection \<open>A failed publish\<close>

text \<open>
  C3. For a \<^verbatim>\<open>CHECK_ELIGIBILITY\<close> record whose loan the policy approves (a positive amount
  below 1000000 and a draw below the double 0.7), with the topic configured and \<^verbatim>\<open>sns.publish\<close>
  rejecting: the failure is logged, the handler still answers 200 (so the message leaves
  the queue), the record is listed as processed with \<^verbatim>\<open>APPROVED\<close>, and \<^verbatim>\<open>APPROVED\<close> is the
  status in the table.
\<close>

theorem publish_failure_not_fatal:
  assumes "connect_error h = None"
    and "body r = Inr b" and "action b = Some ''CHECK_ELIGIBILITY''"
    and "loanId b = Some k" and "k \<noteq> 0"
    and "w_loans w k = Some row" and "loanAmount row = Some a" and "0 < a" and "a < 1000000"
    and "select_error (per_record h (length pre)) = None"
    and "update_error (per_record h (length pre)) = None"
    and "l_random (per_record h (length pre)) < double_0_7"
    and "truthy_str (topic_arn h)"
    and "publish_error (per_record h (length pre)) = Some msg"
    and "\<forall>r' \<in> set post. \<forall>b'. body r' = Inr b' \<longrightarrow> loanId b' \<noteq> Some k"
  shows "statusCode (fst (handler h w (Some (pre @ r # post)))) = 200 \<and>
         \<lparr>p_recordId = messageId r, p_loanId = Some k, p_status = APPROVED\<rparr>
            \<in> set (details_processed (response_body (fst (handler h w (Some (pre @ r # post)))))) \<and>
         map_option status (w_loans (snd (handler h w (Some (pre @ r # post)))) k) = Some APPROVED \<and>
         (Error, ''Failed to publish SNS notification for loan ${loanId}'', [AInt (Some k), AStr msg])
            \<in> set (w_log (snd (handler h w (Some (pre @ r # post)))))"
proof -
  let ?es = "per_record h" and ?t = "topic_arn h"
  let ?init = "loop_entry w (length (pre @ r # post))"
  let ?Spre = "for_records ?es ?t 0 ?init pre"
  let ?S1 = "process_record (?es (length pre)) ?t ?Spre r"
  let ?S = "for_records ?es ?t (Suc (length pre)) ?S1 post"
  let ?l = "(Error, ''Failed to publish SNS notification for loan ${loanId}'', [AInt (Some k), AStr msg])"
  have post: "\<And>r' b'. r' \<in> set post \<Longrightarrow> body r' = Inr b' \<Longrightarrow> loanId b' \<noteq> Some k"
    using assms(15) by blast
  have st: "APPROVED = (if l_random (per_record h (length pre)) < double_0_7 \<and> a < 1000000 then APPROVED else REJECTED)"
    using assms(9,12) by simp
  note main = handler_check_outcome [OF assms(1-8,10,11) post st]
  have split: "for_records ?es ?t 0 ?init (pre @ r # post) = ?S"
    by (simp add: for_records_append)
  have "map_option loanAmount (l_loans ?Spre k) = map_option loanAmount (l_loans ?init k)"
    by (rule for_records_amount)
  then obtain row' where row': "l_loans ?Spre k = Some row'" "loanAmount row' = Some a"
    using assms(6,7) by (auto simp add: loop_entry_def)
  have "?l \<in> set (l_log ?S1)"
    using process_record_publish_failed [OF assms(2-5) row' assms(8,9,10,11,12,13,14)] by simp
  then have "?l \<in> set (l_log ?S)"
    using for_records_log_mono [of ?S1 ?es ?t "Suc (length pre)" post] by blast
  then have "?l \<in> set (w_log (snd (handler h w (Some (pre @ r # post)))))"
    unfolding handler_connected [OF assms(1)] split Let_def
    using close_connection_fields(4) [of "\<lparr>w_loans = l_loans ?S, w_sns_calls = sns_calls ?S,
             w_sns_topic = sns_topic ?S, w_log = l_log ?S\<rparr>" h]
    by auto
  with main show ?thesis by simp
qed

theorem publish_failure_not_fatal_witness:
  "statusCode (fst (handler (ex_henv 0.5 (Some ''sns down'') (Some ''arn:loan-approved-topic''))
       (ex_world VERIFIED (Some 250000)) (Some [ex_record 1]))) = 200 \<and>
   \<lparr>p_recordId = ''mid-1'', p_loanId = Some 1, p_status = APPROVED\<rparr>
      \<in> set (details_processed (response_body (fst (handler
            (ex_henv 0.5 (Some ''sns down'') (Some ''arn:loan-approved-topic''))
            (ex_world VERIFIED (Some 250000)) (Some [ex_record 1]))))) \<and>
   map_option status (w_loans (snd (handler (ex_henv 0.5 (Some ''sns down'') (Some ''arn:loan-approved-topic''))
       (ex_world VERIFIED (Some 250000)) (Some [ex_record 1]))) 1) = Some APPROVED"
  using publish_failure_not_fatal [of "ex_henv 0.5 (Some ''sns down'') (Some ''arn:loan-approved-topic'')"
      "ex_record 1"
      "\<lparr>loanId = Some 1, userId = Some 1, action = Some ''CHECK_ELIGIBILITY'', timestamp = Some ''t1''\<rparr>"
      1 "ex_world VERIFIED (Some 250000)" "ex_loan VERIFIED (Some 250000)" 250000 "[]"
      "''sns down''" "[]"]
  by (simp add: ex_l_defs truthy_str_def double_0_7_def)

subsection \<open>No topic, no publish\<close>

text \<open>
  C10. With \<^verbatim>\<open>LOAN_APPROVED_TOPIC_ARN\<close> unset (or empty), an invocation of the handler never
  calls \<^verbatim>\<open>sns.publish\<close> and writes neither of the two notification log lines; a
  \<^verbatim>\<open>CHECK_ELIGIBILITY\<close> record whose loan the policy approves is still listed as processed
  with \<^verbatim>\<open>APPROVED\<close>, and \<^verbatim>\<open>APPROVED\<close> is the status in the table.
\<close>

theorem no_topic_no_publish:
  assumes "connect_error h = None"
    and "\<not> truthy_str (topic_arn h)"
    and "body r = Inr b" and "action b = Some ''CHECK_ELIGIBILITY''"
    and "loanId b = Some k" and "k \<noteq> 0"
    and "w_loans w k = Some row" and "loanAmount row = Some a" and "0 < a" and "a < 1000000"
    and "select_error (per_record h (length pre)) = None"
    and "update_error (per_record h (length pre)) = None"
    and "l_random (per_record h (length pre)) < double_0_7"
    and "\<forall>r' \<in> set post. \<forall>b'. body r' = Inr b' \<longrightarrow> loanId b' \<noteq> Some k"
  shows "map_option status (w_loans (snd (handler h w (Some (pre @ r # post)))) k) = Some APPROVED \<and>
         \<lparr>p_recordId = messageId r, p_loanId = Some k, p_status = APPROVED\<rparr>
            \<in> set (details_processed (response_body (fst (handler h w (Some (pre @ r # post)))))) \<and>
         w_sns_calls (snd (handler h w (Some (pre @ r # post)))) = w_sns_calls w \<and>
         (\<forall>l \<in> set (w_log (snd (handler h w (Some (pre @ r # post))))).
             l \<in> set (w_log w) \<or> \<not> notification_log l)"
proof -
  let ?rs = "pre @ r # post"
  let ?S = "for_records (per_record h) (topic_arn h) 0 (loop_entry w (length ?rs)) ?rs"
  let ?W = "\<lparr>w_loans = l_loans ?S, w_sns_calls = sns_calls ?S,
             w_sns_topic = sns_topic ?S, w_log = l_log ?S\<rparr>"
  have post: "\<And>r' b'. r' \<in> set post \<Longrightarrow> body r' = Inr b' \<Longrightarrow> loanId b' \<noteq> Some k"
    using assms(14) by blast
  have st: "APPROVED = (if l_random (per_record h (length pre)) < double_0_7 \<and> a < 1000000 then APPROVED else REJECTED)"
    using assms(10,13) by simp
  note main = handler_check_outcome [OF assms(1,3-9,11,12) post st]
  note quiet = for_records_unpublished [OF assms(2), of "per_record h" 0 "loop_entry w (length ?rs)" ?rs]
  have calls: "sns_calls ?S = w_sns_calls w"
    using quiet by (simp add: loop_entry_def)
  have logs: "\<forall>l \<in> set (l_log ?S). l \<in> set (w_log w) \<or> \<not> notification_log l"
    using quiet by (auto simp add: loop_entry_def notification_log_def)
  have snd_eq: "snd (handler h w (Some ?rs)) = close_connection h ?W"
    unfolding handler_connected [OF assms(1)] Let_def by simp
  have "w_sns_calls (snd (handler h w (Some ?rs))) = w_sns_calls w"
    unfolding snd_eq using calls by (simp add: close_connection_fields)
  moreover have "\<forall>l \<in> set (w_log (snd (handler h w (Some ?rs)))). l \<in> set (w_log w) \<or> \<not> notification_log l"
    unfolding snd_eq using logs close_connection_fields(5) [of h ?W] by auto
  ultimately show ?thesis using main by simp
qed

theorem no_topic_no_publish_witness:
  "map_option status (w_loans (snd (handler (ex_henv 0.5 None None) (ex_world VERIFIED (Some 250000))
       (Some [ex_record 1]))) 1) = Some APPROVED \<and>
   w_sns_calls (snd (handler (ex_henv 0.5 None None) (ex_world VERIFIED (Some 250000))
       (Some [ex_record 1]))) = [] \<and>
   filter notification_log (w_log (snd (handler (ex_henv 0.5 None None) (ex_world VERIFIED (Some 250000))
       (Some [ex_record 1])))) = []"
  using no_topic_no_publish [of "ex_henv 0.5 None None" "ex_record 1"
      "\<lparr>loanId = Some 1, userId = Some 1, action = Some ''CHECK_ELIGIBILITY'', timestamp = Some ''t1''\<rparr>"
      1 "ex_world VERIFIED (Some 250000)" "ex_loan VERIFIED (Some 250000)" 250000 "[]" "[]"]
  by (simp add: ex_l_defs truthy_str_def filter_empty_conv double_0_7_def)

subsection \<open>The ceiling\<close>

text \<open>
  C4. For every amount of at least 1000000 and every draw, \<^verbatim>\<open>calculateEligibility\<close> returns
  \<^verbatim>\<open>eligible: false\<close> with the reason \<^verbatim>\<open>Loan amount exceeds maximum threshold\<close>, and the
  handler sets the loan to \<^verbatim>\<open>REJECTED\<close>; for a (positive) amount below 1000000 the result
  is decided by the draw: eligible exactly when the draw is below the double that the
  literal \<^verbatim>\<open>0.7\<close> denotes (a draw equal to it is rejected).
\<close>

theorem ceiling_rejects:
  assumes "1000000 \<le> a" and "0 < a'" and "a' < 1000000"
    and "connect_error h = None"
    and "body r = Inr b" and "action b = Some ''CHECK_ELIGIBILITY''"
    and "loanId b = Some k" and "k \<noteq> 0"
    and "w_loans w k = Some row" and "loanAmount row = Some a"
    and "select_error (per_record h (length pre)) = None"
    and "update_error (per_record h (length pre)) = None"
    and "\<forall>r' \<in> set post. \<forall>b'. body r' = Inr b' \<longrightarrow> loanId b' \<noteq> Some k"
  shows "calculateEligibility rnd (Some a) =
           Inr \<lparr>eligible = False, reason = ''Loan amount exceeds maximum threshold''\<rparr> \<and>
         calculateEligibility rnd (Some a') =
           Inr \<lparr>eligible = (rnd < double_0_7),
                reason = (if rnd < double_0_7 then ''Approved based on eligibility rules''
                          else ''Does not meet eligibility criteria'')\<rparr> \<and>
         \<lparr>p_recordId = messageId r, p_loanId = Some k, p_status = REJECTED\<rparr>
            \<in> set (details_processed (response_body (fst (handler h w (Some (pre @ r # post)))))) \<and>
         map_option status (w_loans (snd (handler h w (Some (pre @ r # post)))) k) = Some REJECTED"
proof -
  have c1: "calculateEligibility rnd (Some a) =
           Inr \<lparr>eligible = False, reason = ''Loan amount exceeds maximum threshold''\<rparr>"
    using assms(1) by (simp add: calculateEligibility_def)
  have c2: "calculateEligibility rnd (Some a') =
           Inr \<lparr>eligible = (rnd < double_0_7),
                reason = (if rnd < double_0_7 then ''Approved based on eligibility rules''
                          else ''Does not meet eligibility criteria'')\<rparr>"
    using assms(2,3) by (simp add: calculateEligibility_def)
  have pos: "0 < a" using assms(1) by simp
  have post: "\<And>r' b'. r' \<in> set post \<Longrightarrow> body r' = Inr b' \<Longrightarrow> loanId b' \<noteq> Some k"
    using assms(13) by blast
  have st: "REJECTED = (if l_random (per_record h (length pre)) < double_0_7 \<and> a < 1000000 then APPROVED else REJECTED)"
    using assms(1) by simp
  note main = handler_check_outcome [OF assms(4-10) pos assms(11,12) post st]
  show ?thesis using c1 c2 main by simp
qed

theorem ceiling_rejects_witness:
  "calculateEligibility 0 (Some 1000000) =
     Inr \<lparr>eligible = False, reason = ''Loan amount exceeds maximum threshold''\<rparr> \<and>
   calculateEligibility 0 (Some 999999) =
     Inr \<lparr>eligible = True, reason = ''Approved based on eligibility rules''\<rparr> \<and>
   calculateEligibility 0.9 (Some 999999) =
     Inr \<lparr>eligible = False, reason = ''Does not meet eligibility criteria''\<rparr> \<and>
   calculateEligibility double_0_7 (Some 999999) =
     Inr \<lparr>eligible = False, reason = ''Does not meet eligibility criteria''\<rparr> \<and>
   map_option status (w_loans (snd (handler (ex_henv 0 None None) (ex_world VERIFIED (Some 1000000))
       (Some [ex_record 1]))) 1) = Some REJECTED"
  using ceiling_rejects [of 1000000 999999 "ex_henv 0 None None" "ex_record 1"
      "\<lparr>loanId = Some 1, userId = Some 1, action = Some ''CHECK_ELIGIBILITY'', timestamp = Some ''t1''\<rparr>"
      1 "ex_world VERIFIED (Some 1000000)" "ex_loan VERIFIED (Some 1000000)" "[]" "[]" "0"]
    ceiling_rejects [of 1000000 999999 "ex_henv 0 None None" "ex_record 1"
      "\<lparr>loanId = Some 1, userId = Some 1, action = Some ''CHECK_ELIGIBILITY'', timestamp = Some ''t1''\<rparr>"
      1 "ex_world VERIFIED (Some 1000000)" "ex_loan VERIFIED (Some 1000000)" "[]" "[]" "0.9"]
    ceiling_rejects [of 1000000 999999 "ex_henv 0 None None" "ex_record 1"
      "\<lparr>loanId = Some 1, userId = Some 1, action = Some ''CHECK_ELIGIBILITY'', timestamp = Some ''t1''\<rparr>"
      1 "ex_world VERIFIED (Some 1000000)" "ex_loan VERIFIED (Some 1000000)" "[]" "[]" double_0_7]
  by (simp add: ex_l_defs double_0_7_def)

subsection \<open>An invalid amount\<close>

text \<open>
  C8. For a \<^verbatim>\<open>CHECK_ELIGIBILITY\<close> record whose loan has no amount or an amount that is not
  positive, \<^verbatim>\<open>calculateEligibility\<close> throws \<^verbatim>\<open>Invalid loan amount\<close>: the error is logged,
  the record is listed as failed with that reason, the handler answers 200 (so the message
  leaves the queue and is not retried), and the loan's row is as it was when no other
  record of the batch is for the same loan.
\<close>

theorem invalid_amount_dropped:
  assumes "connect_error h = None"
    and "body r = Inr b" and "action b = Some ''CHECK_ELIGIBILITY''"
    and "loanId b = Some k" and "k \<noteq> 0"
    and "w_loans w k = Some row"
    and "case loanAmount row of None \<Rightarrow> True | Some a \<Rightarrow> a \<le> 0"
    and "select_error (per_record h (length pre)) = None"
    and "\<forall>r' \<in> set pre \<union> set post. \<forall>b'. body r' = Inr b' \<longrightarrow> loanId b' \<noteq> Some k"
  shows "statusCode (fst (handler h w (Some (pre @ r # post)))) = 200 \<and>
         \<lparr>f_recordId = messageId r, f_reason = ''Invalid loan amount''\<rparr>
            \<in> set (details_failed (response_body (fst (handler h w (Some (pre @ r # post)))))) \<and>
         (Error, ''Error processing record'', [AStr ''Invalid loan amount''])
            \<in> set (w_log (snd (handler h w (Some (pre @ r # post))))) \<and>
         w_loans (snd (handler h w (Some (pre @ r # post)))) k = Some row"
proof -
  let ?es = "per_record h" and ?t = "topic_arn h"
  let ?init = "loop_entry w (length (pre @ r # post))"
  let ?Spre = "for_records ?es ?t 0 ?init pre"
  let ?S1 = "process_record (?es (length pre)) ?t ?Spre r"
  let ?S = "for_records ?es ?t (Suc (length pre)) ?S1 post"
  let ?f = "\<lparr>f_recordId = messageId r, f_reason = ''Invalid loan amount''\<rparr>"
  let ?l = "(Error, ''Error processing record'', [AStr ''Invalid loan amount''])"
  have split: "for_records ?es ?t 0 ?init (pre @ r # post) = ?S"
    by (simp add: for_records_append)
  have "l_loans ?Spre k = l_loans ?init k"
    by (rule for_records_other) (use assms(9) in blast)
  then have rowpre: "l_loans ?Spre k = Some row"
    using assms(6) by (simp add: loop_entry_def)
  note step = process_record_invalid_amount [OF assms(2-5) rowpre assms(7,8), of ?t]
  have t1: "l_loans ?S1 k = Some row" using rowpre unfolding step by simp
  have f1: "?f \<in> set (failedRecords ?S1)" unfolding step by simp
  have l1: "?l \<in> set (l_log ?S1)" unfolding step by simp
  have "l_loans ?S k = l_loans ?S1 k"
    by (rule for_records_other) (use assms(9) in blast)
  then have t: "l_loans ?S k = Some row" using t1 by simp
  have f: "?f \<in> set (failedRecords ?S)"
    using f1 for_records_failed_mono [of ?S1 ?es ?t "Suc (length pre)" post] by blast
  have "?l \<in> set (l_log ?S)"
    using l1 for_records_log_mono [of ?S1 ?es ?t "Suc (length pre)" post] by blast
  then have l: "?l \<in> set (w_log (close_connection h \<lparr>w_loans = l_loans ?S, w_sns_calls = sns_calls ?S,
             w_sns_topic = sns_topic ?S, w_log = l_log ?S\<rparr>))"
    using close_connection_fields(4) [of "\<lparr>w_loans = l_loans ?S, w_sns_calls = sns_calls ?S,
             w_sns_topic = sns_topic ?S, w_log = l_log ?S\<rparr>" h]
    by auto
  show ?thesis
    unfolding handler_connected [OF assms(1)] split Let_def
    using t f l by (simp add: close_connection_fields)
qed

theorem invalid_amount_dropped_witness:
  "statusCode (fst (handler (ex_henv 0.5 None None) (ex_world VERIFIED (Some (- 5))) (Some [ex_record 1]))) = 200 \<and>
   \<lparr>f_recordId = ''mid-1'', f_reason = ''Invalid loan amount''\<rparr>
      \<in> set (details_failed (response_body (fst (handler (ex_henv 0.5 None None)
              (ex_world VERIFIED (Some (- 5))) (Some [ex_record 1]))))) \<and>
   w_loans (snd (handler (ex_henv 0.5 None None) (ex_world VERIFIED (Some (- 5))) (Some [ex_record 1]))) 1
     = Some (ex_loan VERIFIED (Some (- 5)))"
  using invalid_amount_dropped [of "ex_henv 0.5 None None" "ex_record 1"
      "\<lparr>loanId = Some 1, userId = Some 1, action = Some ''CHECK_ELIGIBILITY'', timestamp = Some ''t1''\<rparr>"
      1 "ex_world VERIFIED (Some (- 5))" "ex_loan VERIFIED (Some (- 5))" "[]" "[]"]
  by (simp add: ex_l_defs)

section \<open>Properties of the loan service\<close>

lemmas ex_p_defs = ex_pstate_def ex_penv_def ex_body_def ex_db_def ex_loan_def

lemmas producer_defs =
  post_loans_def sendSQSMessage_def insert_loan_def errorHandler_def query_error_def log_p_def Let_def

text \<open>
  C9 (as the code has it). For a validated request whose user exists, and database calls
  that succeed, \<^verbatim>\<open>POST /loans\<close> inserts the loan with the status \<^verbatim>\<open>PENDING_VERIFICATION\<close>
  and then tries to send the \<^verbatim>\<open>VERIFY_DOCUMENTS\<close> message; whether the send succeeds or
  fails, the answer is 201 with the new loan id and \<^verbatim>\<open>PENDING_VERIFICATION\<close>, and the row
  stays as inserted. When the send fails the queue receives nothing.
\<close>

theorem creation_reported_despite_enqueue_failure:
  assumes "pool (p_db s)" and "users_query_error e = None" and "insert_error e = None"
    and "vb_userId vb \<in> users (p_db s)"
  shows "http_status (fst (post_loans e s vb)) = 201 \<and>
         http_json (fst (post_loans e s vb)) =
           LoanCreated ''Loan created successfully'' (auto_increment (p_db s)) PENDING_VERIFICATION \<and>
         loans (p_db (snd (post_loans e s vb))) (auto_increment (p_db s)) =
           Some \<lparr>loan_userId = vb_userId vb, loanAmount = Some (vb_loanAmount vb),
                 propertyAddress = vb_propertyAddress vb, status = PENDING_VERIFICATION\<rparr> \<and>
         p_doc_verification_queue (snd (post_loans e s vb)) =
           p_doc_verification_queue s @
             (case p_send_error e of
                None \<Rightarrow> [\<lparr>loanId = Some (auto_increment (p_db s)), userId = Some (vb_userId vb),
                           action = Some ''VERIFY_DOCUMENTS'', timestamp = Some (p_now e)\<rparr>]
              | Some msg \<Rightarrow> [])"
  using assms by (simp add: producer_defs split: option.splits)

theorem creation_reported_despite_enqueue_failure_witness:
  "http_status (fst (post_loans (ex_penv (Some ''queue down'')) ex_pstate (ex_body 1))) = 201 \<and>
   http_json (fst (post_loans (ex_penv (Some ''queue down'')) ex_pstate (ex_body 1))) =
     LoanCreated ''Loan created successfully'' 2 PENDING_VERIFICATION \<and>
   map_option status (loans (p_db (snd (post_loans (ex_penv (Some ''queue down'')) ex_pstate (ex_body 1)))) 2) =
     Some PENDING_VERIFICATION \<and>
   p_doc_verification_queue (snd (post_loans (ex_penv (Some ''queue down'')) ex_pstate (ex_body 1))) = []"
  using creation_reported_despite_enqueue_failure
    [of ex_pstate "ex_penv (Some ''queue down'')" "ex_body 1"]
  by (simp add: ex_p_defs)

text \<open>The sample run: a validated request for user 99, who does not exist, is answered 404;
  no row is inserted and nothing is sent.\<close>

theorem unknown_user_not_created:
  "http_status (fst (post_loans (ex_penv None) ex_pstate (ex_body 99))) = 404 \<and>
   http_json (fst (post_loans (ex_penv None) ex_pstate (ex_body 99))) = ErrorJson ''User not found'' \<and>
   p_db (snd (post_loans (ex_penv None) ex_pstate (ex_body 99))) = p_db ex_pstate \<and>
   p_doc_verification_queue (snd (post_loans (ex_penv None) ex_pstate (ex_body 99))) = []"
  by (simp add: ex_p_defs producer_defs)

section \<open>Status writes of both workers\<close>

text \<open>
  C1 (as the code has it). Neither worker reads the current status before it writes. For a
  \<^verbatim>\<open>VERIFY_DOCUMENTS\<close> message whose loan exists, the verification service sets the status
  to \<^verbatim>\<open>VERIFIED\<close> or \<^verbatim>\<open>VERIFICATION_FAILED\<close> whatever the status was; for a
  \<^verbatim>\<open>CHECK_ELIGIBILITY\<close> record whose loan exists with a positive amount, the Lambda sets it
  to \<^verbatim>\<open>APPROVED\<close> or \<^verbatim>\<open>REJECTED\<close> whatever the status was (database calls succeeding).
\<close>

theorem status_write_unconditional:
  "(Body m = Inr b \<and> action b = Some ''VERIFY_DOCUMENTS'' \<and> loanId b = Some k \<and>
    loans (db s) k = Some row \<and> pool (db s) \<and> db_error e = None
    \<longrightarrow> loans (db (snd (processMessage e s m))) k =
          Some (row\<lparr>status := (if random e < 0.9 then VERIFIED else VERIFICATION_FAILED)\<rparr>)) \<and>
   (body r = Inr b' \<and> action b' = Some ''CHECK_ELIGIBILITY'' \<and> loanId b' = Some k' \<and> k' \<noteq> 0 \<and>
    l_loans ls k' = Some row' \<and> loanAmount row' = Some a \<and> 0 < a \<and>
    select_error le = None \<and> update_error le = None
    \<longrightarrow> l_loans (process_record le topic ls r) k' =
          Some (row'\<lparr>status := (if l_random le < double_0_7 \<and> a < 1000000 then APPROVED else REJECTED)\<rparr>))"
proof (intro conjI impI)
  assume h: "Body m = Inr b \<and> action b = Some ''VERIFY_DOCUMENTS'' \<and> loanId b = Some k \<and>
    loans (db s) k = Some row \<and> pool (db s) \<and> db_error e = None"
  then have "db (snd (processMessage e s m)) =
           (db s)\<lparr>loans := update_status (loans (db s))
              (if random e < 0.9 then VERIFIED else VERIFICATION_FAILED) k\<rparr>"
    using processMessage_verify_db [of m b k s e] by simp
  with h show "loans (db (snd (processMessage e s m))) k =
          Some (row\<lparr>status := (if random e < 0.9 then VERIFIED else VERIFICATION_FAILED)\<rparr>)"
    by (simp add: update_status_def)
next
  assume h: "body r = Inr b' \<and> action b' = Some ''CHECK_ELIGIBILITY'' \<and> loanId b' = Some k' \<and> k' \<noteq> 0 \<and>
    l_loans ls k' = Some row' \<and> loanAmount row' = Some a \<and> 0 < a \<and>
    select_error le = None \<and> update_error le = None"
  then show "l_loans (process_record le topic ls r) k' =
          Some (row'\<lparr>status := (if l_random le < double_0_7 \<and> a < 1000000 then APPROVED else REJECTED)\<rparr>)"
    using process_record_check_table [of r b' k' ls row' a le topic] by simp
qed

theorem status_write_unconditional_witness:
  "loans (db (snd (processMessage (ex_venv 0.5 None None) (ex_vstate REJECTED [])
       (ex_message 1 ''VERIFY_DOCUMENTS'')))) 1 = Some (ex_loan VERIFIED (Some 250000)) \<and>
   l_loans (process_record (ex_lenv 0.5 None) None (loop_entry (ex_world VERIFICATION_FAILED (Some 250000)) 1)
       (ex_record 1)) 1 = Some (ex_loan APPROVED (Some 250000))"
  using status_write_unconditional [of "ex_message 1 ''VERIFY_DOCUMENTS''"
      "\<lparr>loanId = Some 1, userId = Some 1, action = Some ''VERIFY_DOCUMENTS'', timestamp = Some ''t0''\<rparr>"
      1 "ex_vstate REJECTED []" "ex_loan REJECTED (Some 250000)" "ex_venv 0.5 None None"
      "ex_record 1"
      "\<lparr>loanId = Some 1, userId = Some 1, action = Some ''CHECK_ELIGIBILITY'', timestamp = Some ''t1''\<rparr>"
      1 "loop_entry (ex_world VERIFICATION_FAILED (Some 250000)) 1"
      "ex_loan VERIFICATION_FAILED (Some 250000)" 250000 "ex_lenv 0.5 None" None]
  by (simp add: ex_v_defs ex_l_defs loop_entry_def double_0_7_def)

text \<open>The sample runs: the verification service turns an \<^verbatim>\<open>APPROVED\<close> loan into \<^verbatim>\<open>VERIFIED\<close>,
  and the Lambda turns a \<^verbatim>\<open>PENDING_VERIFICATION\<close> loan into \<^verbatim>\<open>APPROVED\<close>.\<close>

theorem stale_status_overwritten:
  "map_option status (loans (db (ex_vstate APPROVED [])) 1) = Some APPROVED \<and>
   map_option status (loans (db (snd (processMessage (ex_venv 0.5 None None) (ex_vstate APPROVED [])
       (ex_message 1 ''VERIFY_DOCUMENTS'')))) 1) = Some VERIFIED \<and>
   map_option status (w_loans (ex_world PENDING_VERIFICATION (Some 250000)) 1) = Some PENDING_VERIFICATION \<and>
   map_option status (w_loans (snd (handler (ex_henv 0.5 None None)
       (ex_world PENDING_VERIFICATION (Some 250000)) (Some [ex_record 1]))) 1) = Some APPROVED"
  by (simp add: ex_v_defs ex_l_defs worker_defs lambda_defs)

end
